theory Spec2Isabelle
  imports Complex_Main "HOL-Library.AList" "HOL-Library.Sublist" "HOL-Library.Log_Nat"
    "HOL-Library.Product_Lexorder"
begin

section \<open>City Scoring API: the data model of \<open>city_api.py\<close>\<close>

text \<open>
  The service keeps two module-level dictionaries, \<open>CITIES_DATA\<close> and \<open>COUNTRIES\<close>, filled
  once by \<open>load_cities_data\<close> and read by the four request handlers.

  Modelling decisions:
  \<^item> A Python \<open>dict\<close> iterates in insertion order, and assigning to a key that is already
    present keeps the key's position. The two global dictionaries are therefore association
    lists updated with \<open>AList.update\<close> (replace in place, else append at the end).
  \<^item> A number of the dataset is what \<open>json.load\<close> makes of a JSON number: a Python \<open>int\<close>
    or a \<open>float\<close>. A float is an IEEE binary64 value; the arithmetic of the handlers is
    modelled operation by operation, each result rounded to the nearest binary64 value
    (ties to even), with overflow to infinity and with NaN.
  \<^item> A city object of the dataset is a JSON object. Its \<open>"city"\<close> key (a string), an
    optional \<open>"country"\<close> key of its own (a string) and its numeric keys are kept apart;
    a key may be absent, and reading an absent key raises \<open>KeyError\<close>.
  \<^item> A string is the list of its characters, a character outside ASCII being the bytes of
    its UTF-8 encoding: one such string contains another exactly when the texts do.
  \<^item> \<open>str.lower\<close> is the interpreter's Unicode-aware lower-casing. The handlers that call
    it take it as the parameter \<open>lower\<close>, so every property is proved for whatever function
    it is; \<open>a in b\<close> on strings is \<open>sublist a b\<close>.
\<close>

section \<open>Python numbers\<close>

subsection \<open>Binary64 values and rounding\<close>

text \<open>
  A float that is not NaN is a real number (a dyadic rational, once rounded) or an
  infinity; the sign of a zero is not kept (no operation of the module tells \<open>-0.0\<close> from \<open>0.0\<close>, only its printed form does).
\<close>

datatype fl = Fin real | PInf | NInf

datatype pyfloat = Num fl | NaN

text \<open>
  A number of the parsed dataset: an \<open>int\<close> of any size, or a float, which may be an
  infinity (\<open>1e999\<close> parses to one). NaN is not a JSON number; \<open>json.load\<close> accepts the
  literal all the same, and a dataset that holds it is outside this model, as is one whose
  index values are not numbers.
\<close>

datatype pynum = PyInt int | PyFloat fl

definition pow2 :: "int \<Rightarrow> real" where
  "pow2 t = 2 powi t"

text \<open>The binary exponent of a non-zero number: \<open>pow2 (ilog2 x) \<le> \<bar>x\<bar> < pow2 (ilog2 x + 1)\<close>.\<close>

definition ilog2 :: "real \<Rightarrow> int" where
  "ilog2 x =
     (if 1 \<le> \<bar>x\<bar> then bitlen \<lfloor>\<bar>x\<bar>\<rfloor> - 1 else - bitlen (\<lceil>1 / \<bar>x\<bar>\<rceil> - 1))"

definition round_half_even :: "real \<Rightarrow> int" where
  "round_half_even x =
     (let f = \<lfloor>x\<rfloor>; d = x - of_int f
      in if d < 1 / 2 then f
         else if 1 / 2 < d then f + 1
         else if even f then f else f + 1)"

text \<open>
  Rounding to binary64, to nearest and ties to even, of a number whose binary exponent is
  \<open>e\<close>: 53 significant bits, the least exponent of a normal number is \<open>-1022\<close> (below it
  the spacing stays \<open>2 ^ -1074\<close>), and a result of magnitude \<open>2 ^ 1024\<close> or more is an
  infinity.
\<close>

definition round_at :: "int \<Rightarrow> real \<Rightarrow> fl" where
  "round_at e x =
     (let t = max e (- 1022) - 52;
          y = of_int (round_half_even (x / pow2 t)) * pow2 t
      in if pow2 1024 \<le> \<bar>y\<bar> then (if 0 < x then PInf else NInf) else Fin y)"

definition rd :: "real \<Rightarrow> fl" where
  "rd x = (if x = 0 then Fin 0 else round_at (ilog2 x) x)"

subsection \<open>Arithmetic and comparison\<close>

text \<open>\<open>x + y\<close> and \<open>x * y\<close> on floats.\<close>

fun fadd :: "pyfloat \<Rightarrow> pyfloat \<Rightarrow> pyfloat" where
  "fadd (Num (Fin a)) (Num (Fin b)) = Num (rd (a + b))"
| "fadd (Num PInf) (Num NInf) = NaN"
| "fadd (Num NInf) (Num PInf) = NaN"
| "fadd (Num PInf) (Num b) = Num PInf"
| "fadd (Num NInf) (Num b) = Num NInf"
| "fadd (Num a) (Num PInf) = Num PInf"
| "fadd (Num a) (Num NInf) = Num NInf"
| "fadd NaN y = NaN"
| "fadd x NaN = NaN"

definition fl_sign :: "fl \<Rightarrow> real" where
  "fl_sign f = (case f of Fin a \<Rightarrow> sgn a | PInf \<Rightarrow> 1 | NInf \<Rightarrow> - 1)"

fun fmul :: "pyfloat \<Rightarrow> pyfloat \<Rightarrow> pyfloat" where
  "fmul (Num (Fin a)) (Num (Fin b)) = Num (rd (a * b))"
| "fmul (Num a) (Num b) =
     (if fl_sign a * fl_sign b = 0 then NaN
      else if 0 < fl_sign a * fl_sign b then Num PInf else Num NInf)"
| "fmul NaN y = NaN"
| "fmul x NaN = NaN"

text \<open>
  The order of the values. Python compares an \<open>int\<close> with a \<open>float\<close> by their exact values,
  and every comparison with NaN is false.
\<close>

definition fl_rank :: "fl \<Rightarrow> int \<times> real" where
  "fl_rank f = (case f of Fin a \<Rightarrow> (0, a) | PInf \<Rightarrow> (1, 0) | NInf \<Rightarrow> (- 1, 0))"

definition num_rank :: "pynum \<Rightarrow> int \<times> real" where
  "num_rank x = (case x of PyInt i \<Rightarrow> (0, of_int i) | PyFloat f \<Rightarrow> fl_rank f)"

text \<open>
  \<open>x < y\<close>, \<open>x > y\<close>, \<open>x >= y\<close> and \<open>x <= y\<close> for a number of the dataset \<open>x\<close> and a
  float \<open>y\<close>.
\<close>

definition num_lt_float :: "pynum \<Rightarrow> pyfloat \<Rightarrow> bool" where
  "num_lt_float x y = (case y of NaN \<Rightarrow> False | Num f \<Rightarrow> num_rank x < fl_rank f)"

definition num_gt_float :: "pynum \<Rightarrow> pyfloat \<Rightarrow> bool" where
  "num_gt_float x y = (case y of NaN \<Rightarrow> False | Num f \<Rightarrow> fl_rank f < num_rank x)"



text \<open>\<open>x >= n\<close> and \<open>x < n\<close> for a float \<open>x\<close> and an \<open>int\<close> \<open>n\<close>.\<close>

definition float_ge_int :: "pyfloat \<Rightarrow> int \<Rightarrow> bool" where
  "float_ge_int x n = (case x of NaN \<Rightarrow> False | Num f \<Rightarrow> (0, of_int n) \<le> fl_rank f)"

definition float_lt_int :: "pyfloat \<Rightarrow> int \<Rightarrow> bool" where
  "float_lt_int x n = (case x of NaN \<Rightarrow> False | Num f \<Rightarrow> fl_rank f < (0, of_int n))"

subsection \<open>\<open>round(x, 1)\<close>\<close>

text \<open>
  On a float, \<open>round(x, 1)\<close> takes the exact value of \<open>x\<close> to the nearest multiple of one
  tenth, ties to the even digit, and returns the binary64 value nearest to that decimal;
  an infinity and NaN round to themselves. On an \<open>int\<close> it returns the \<open>int\<close>.
\<close>

definition round1_fl :: "fl \<Rightarrow> fl" where
  "round1_fl f =
     (case f of Fin a \<Rightarrow> rd (of_int (round_half_even (a * 10)) / 10) | PInf \<Rightarrow> PInf
      | NInf \<Rightarrow> NInf)"

definition round1_float :: "pyfloat \<Rightarrow> pyfloat" where
  "round1_float x = (case x of NaN \<Rightarrow> NaN | Num f \<Rightarrow> Num (round1_fl f))"

definition py_round1 :: "pynum \<Rightarrow> pynum" where
  "py_round1 x = (case x of PyInt i \<Rightarrow> PyInt i | PyFloat f \<Rightarrow> PyFloat (round1_fl f))"

section \<open>The dataset and the two dictionaries\<close>

datatype error =
    FileNotFoundError
  | JSONDecodeError
  | KeyError string
  | IndexError
  | OverflowError

text \<open>A city object as it stands in the parsed dataset (\<open>city_data\<close> in the loader).\<close>

record city_obj =
  name_field :: "string option"
  country_field :: "string option"
  indices :: "string \<rightharpoonup> pynum"

text \<open>A country group of the parsed dataset (\<open>country_data\<close> in the loader).\<close>

record country_data =
  cd_country :: "string option"
  cd_cities :: "city_obj list option"

text \<open>
  What \<open>open\<close> and \<open>json.load\<close> give: the file is missing, it is not JSON, or it parses to
  a list of country groups.
\<close>

datatype source = Missing | Invalid | Parsed "country_data list"

text \<open>
  A value of \<open>CITIES_DATA\<close>: the dictionary
  \<open>{"city": city_name, "country": country, **city_data}\<close>. The unpacked \<open>city_data\<close>
  comes last, so a \<open>"country"\<close> key of the city object replaces the group's country.
\<close>

record city_record =
  city :: string
  country :: string
  index :: "string \<rightharpoonup> pynum"

record state =
  CITIES_DATA :: "(string \<times> city_record) list"
  COUNTRIES :: "(string \<times> string list) list"

definition empty_state :: state where
  "empty_state = \<lparr>CITIES_DATA = [], COUNTRIES = []\<rparr>"

section \<open>\<open>load_cities_data\<close>\<close>

definition make_record :: "string \<Rightarrow> string \<Rightarrow> city_obj \<Rightarrow> city_record" where
  "make_record city_name country_name city_data =
     \<lparr>city = city_name,
      country = (case country_field city_data of None \<Rightarrow> country_name | Some c \<Rightarrow> c),
      index = indices city_data\<rparr>"

definition city_key :: "string \<Rightarrow> string \<Rightarrow> string" where
  "city_key city_name country_name = city_name @ '', '' @ country_name"

text \<open>
  The inner loop (lines 30 to 39). The globals are mutated in place, so when an exception
  is raised the state reached so far is what remains: every function of the loader returns
  the exception (if any) together with the state.
\<close>

fun load_cities :: "string \<Rightarrow> city_obj list \<Rightarrow> state \<Rightarrow> error option \<times> state" where
  "load_cities country_name [] s = (None, s)"
| "load_cities country_name (city_data # rest) s =
     (case name_field city_data of
        None \<Rightarrow> (Some (KeyError ''city''), s)
      | Some city_name \<Rightarrow>
          (let s1 = s\<lparr>CITIES_DATA :=
                      AList.update (city_key city_name country_name)
                        (make_record city_name country_name city_data) (CITIES_DATA s)\<rparr>
           in case map_of (COUNTRIES s1) country_name of
                None \<Rightarrow> (Some (KeyError country_name), s1)
              | Some cities \<Rightarrow>
                  load_cities country_name rest
                    (s1\<lparr>COUNTRIES :=
                          AList.update country_name (cities @ [city_name]) (COUNTRIES s1)\<rparr>)))"

text \<open>The outer loop (lines 26 to 39).\<close>

fun load_countries :: "country_data list \<Rightarrow> state \<Rightarrow> error option \<times> state" where
  "load_countries [] s = (None, s)"
| "load_countries (cdata # rest) s =
     (case cd_country cdata of
        None \<Rightarrow> (Some (KeyError ''country''), s)
      | Some country_name \<Rightarrow>
          (let s1 = s\<lparr>COUNTRIES := AList.update country_name [] (COUNTRIES s)\<rparr>
           in case cd_cities cdata of
                None \<Rightarrow> (Some (KeyError ''cities''), s1)
              | Some cities \<Rightarrow>
                  (case load_cities country_name cities s1 of
                     (Some e, s2) \<Rightarrow> (Some e, s2)
                   | (None, s2) \<Rightarrow> load_countries rest s2)))"

text \<open>
  \<open>load_cities_data\<close> (lines 19 to 46). Both \<open>except\<close> clauses only print, so the function
  ends with the globals as the failing statement left them. The first component records
  which exception was caught.
\<close>

fun load_cities_data :: "source \<Rightarrow> state \<Rightarrow> error option \<times> state" where
  "load_cities_data Missing s = (Some FileNotFoundError, s)"
| "load_cities_data Invalid s = (Some JSONDecodeError, s)"
| "load_cities_data (Parsed countries_list) s = load_countries countries_list s"

text \<open>The module runs the loader once, on the empty dictionaries (line 50).\<close>

definition startup :: "source \<Rightarrow> state" where
  "startup src = snd (load_cities_data src empty_state)"

definition load_failed :: "source \<Rightarrow> bool" where
  "load_failed src = (fst (load_cities_data src empty_state) \<noteq> None)"

section \<open>Strings\<close>

text \<open>
  Lower-casing of ASCII letters. On a string of ASCII characters it is what \<open>str.lower\<close>
  returns; it is used for the example requests only, which are ASCII.
\<close>

definition ascii_lower_char :: "char \<Rightarrow> char" where
  "ascii_lower_char c =
     (let n = (of_char c :: nat) in if 65 \<le> n \<and> n \<le> 90 then char_of (n + 32) else c)"

definition ascii_lower :: "string \<Rightarrow> string" where
  "ascii_lower s = map ascii_lower_char s"

section \<open>\<open>search_city\<close>\<close>

definition search_city ::
  "(string \<Rightarrow> string) \<Rightarrow> string \<Rightarrow> state \<Rightarrow> (string \<times> city_record) list" where
  "search_city lower city_name s =
     filter (\<lambda>(key, data). sublist (lower city_name) (lower (city data))) (CITIES_DATA s)"

section \<open>\<open>find_city_score\<close> (POST /city/score)\<close>

text \<open>
  The JSON body of the request: \<open>data.get('city_name', '')\<close> reads an absent key as the
  empty string.
\<close>

record score_request =
  req_city_name :: "string option"
  req_country :: "string option"

definition get_str :: "string option \<Rightarrow> string" where
  "get_str v = (case v of None \<Rightarrow> [] | Some x \<Rightarrow> x)"

text \<open>
  The error replies, named after their messages, and the exception that no handler
  catches, which the framework answers with status 500.
\<close>

datatype failure =
    City_name_requis
  | Aucune_donnee_chargee
  | Ville_non_trouvee string
  | Ville_non_trouvee_dans_le_pays string string
  | Uncaught error

fun status_code :: "failure \<Rightarrow> nat" where
  "status_code City_name_requis = 400"
| "status_code Aucune_donnee_chargee = 500"
| "status_code (Ville_non_trouvee c) = 404"
| "status_code (Ville_non_trouvee_dans_le_pays c k) = 404"
| "status_code (Uncaught e) = 500"

datatype advice = Excellent_choix | Bon_choix | Choix_correct | A_considerer_avec_precaution

datatype level = excellent | good | average | poor

record scores =
  qualityOfLife :: pynum
  purchasingPower :: pynum
  safety :: pynum
  healthCare :: pynum
  costOfLiving :: pynum
  propertyPriceToIncome :: pynum
  trafficCommuteTime :: pynum
  pollution :: pynum
  climate :: pynum

record score_result =
  found :: bool
  res_city :: string
  res_country :: string
  res_scores :: scores
  internshipScore :: pyfloat
  recommendation :: advice
  recommendationLevel :: level

text \<open>\<open>city_data[k]\<close> on a stored record: an absent key raises \<open>KeyError\<close>.\<close>

definition lookup :: "city_record \<Rightarrow> string \<Rightarrow> error + pynum" where
  "lookup data k = (case index data k of None \<Rightarrow> Inl (KeyError k) | Some v \<Rightarrow> Inr v)"

fun bind_err :: "error + 'a \<Rightarrow> ('a \<Rightarrow> error + 'b) \<Rightarrow> error + 'b" where
  "bind_err (Inl e) f = Inl e"
| "bind_err (Inr x) f = f x"

text \<open>
  The float literals of the score, each the binary64 value nearest to the decimal.
\<close>

definition c025 :: fl where "c025 = rd (25 / 100)"

definition c020 :: fl where "c020 = rd (20 / 100)"

definition c015 :: fl where "c015 = rd (15 / 100)"

definition c010 :: fl where "c010 = rd (10 / 100)"

definition c005 :: fl where "c005 = rd (5 / 100)"

text \<open>
  \<open>x * c\<close> for a number of the dataset and a float: an \<open>int\<close> is converted to the nearest
  float first, and the conversion raises \<open>OverflowError\<close> when the \<open>int\<close> is too large.
\<close>

definition to_float :: "pynum \<Rightarrow> error + fl" where
  "to_float x =
     (case x of
        PyFloat f \<Rightarrow> Inr f
      | PyInt i \<Rightarrow> (case rd (of_int i) of Fin y \<Rightarrow> Inr (Fin y) | PInf \<Rightarrow> Inl OverflowError
                   | NInf \<Rightarrow> Inl OverflowError))"

definition times :: "pynum \<Rightarrow> fl \<Rightarrow> error + pyfloat" where
  "times x c = bind_err (to_float x) (\<lambda>f. Inr (fmul (Num f) (Num c)))"

text \<open>
  \<open>100 - x\<close>: exact on an \<open>int\<close>; on a float, the float \<open>100.0\<close> minus \<open>x\<close>, rounded.
\<close>

definition hundred_minus :: "pynum \<Rightarrow> pynum" where
  "hundred_minus x =
     (case x of
        PyInt i \<Rightarrow> PyInt (100 - i)
      | PyFloat f \<Rightarrow>
          PyFloat (case f of Fin a \<Rightarrow> rd (100 - a) | PInf \<Rightarrow> NInf | NInf \<Rightarrow> PInf))"

text \<open>
  Lines 120 to 128. Python evaluates the sum from left to right: each key is read and
  its product formed before the next key is read, and the products are added in order.
\<close>

definition stage_score :: "city_record \<Rightarrow> error + pyfloat" where
  "stage_score data =
     bind_err (lookup data ''qualityOfLifeIndex'') (\<lambda>q.
     bind_err (times q c025) (\<lambda>t1.
     bind_err (lookup data ''safetyIndex'') (\<lambda>sf.
     bind_err (times sf c020) (\<lambda>t2.
     bind_err (lookup data ''purchasingPowerIndex'') (\<lambda>pp.
     bind_err (times pp c015) (\<lambda>t3.
     bind_err (lookup data ''costOfLivingIndex'') (\<lambda>col.
     bind_err (times (hundred_minus col) c015) (\<lambda>t4.
     bind_err (lookup data ''healthCareIndex'') (\<lambda>hc.
     bind_err (times hc c010) (\<lambda>t5.
     bind_err (lookup data ''pollutionIndex'') (\<lambda>pol.
     bind_err (times (hundred_minus pol) c010) (\<lambda>t6.
     bind_err (lookup data ''climateIndex'') (\<lambda>cl.
     bind_err (times cl c005) (\<lambda>t7.
       Inr (fadd (fadd (fadd (fadd (fadd (fadd t1 t2) t3) t4) t5) t6) t7)))))))))))))))"

text \<open>Lines 130 to 141.\<close>

definition classify :: "pyfloat \<Rightarrow> advice \<times> level" where
  "classify sc =
     (if float_ge_int sc 120 then (Excellent_choix, excellent)
      else if float_ge_int sc 100 then (Bon_choix, good)
      else if float_ge_int sc 80 then (Choix_correct, average)
      else (A_considerer_avec_precaution, poor))"

text \<open>The \<open>"scores"\<close> object of the reply (lines 147 to 157), keys read in order.\<close>

definition displayed_scores :: "city_record \<Rightarrow> error + scores" where
  "displayed_scores data =
     bind_err (lookup data ''qualityOfLifeIndex'') (\<lambda>q.
     bind_err (lookup data ''purchasingPowerIndex'') (\<lambda>pp.
     bind_err (lookup data ''safetyIndex'') (\<lambda>sf.
     bind_err (lookup data ''healthCareIndex'') (\<lambda>hc.
     bind_err (lookup data ''costOfLivingIndex'') (\<lambda>col.
     bind_err (lookup data ''propertyPriceToIncomeRatio'') (\<lambda>ppi.
     bind_err (lookup data ''trafficCommuteTimeIndex'') (\<lambda>tct.
     bind_err (lookup data ''pollutionIndex'') (\<lambda>pol.
     bind_err (lookup data ''climateIndex'') (\<lambda>cl.
       Inr \<lparr>qualityOfLife = py_round1 q, purchasingPower = py_round1 pp,
            safety = py_round1 sf, healthCare = py_round1 hc,
            costOfLiving = py_round1 col, propertyPriceToIncome = py_round1 ppi,
            trafficCommuteTime = py_round1 tct, pollution = py_round1 pol,
            climate = py_round1 cl\<rparr>)))))))))"

text \<open>Lines 120 to 161: what the handler does with the record it has selected.\<close>

definition score_record :: "city_record \<Rightarrow> error + score_result" where
  "score_record data =
     bind_err (stage_score data) (\<lambda>sc.
     bind_err (displayed_scores data) (\<lambda>shown.
       Inr \<lparr>found = True, res_city = city data, res_country = country data,
            res_scores = shown, internshipScore = round1_float sc,
            recommendation = fst (classify sc),
            recommendationLevel = snd (classify sc)\<rparr>))"

text \<open>Line 109: the country filter on the matches.\<close>

definition filter_country ::
  "(string \<Rightarrow> string) \<Rightarrow> string \<Rightarrow> (string \<times> city_record) list
     \<Rightarrow> (string \<times> city_record) list" where
  "filter_country lower country_name matches =
     filter (\<lambda>m. sublist (lower country_name) (lower (country (snd m)))) matches"

text \<open>The value of \<open>matches\<close> at line 118, where the handler takes its first element.\<close>

definition final_matches ::
  "(string \<Rightarrow> string) \<Rightarrow> score_request \<Rightarrow> state \<Rightarrow> (string \<times> city_record) list" where
  "final_matches lower req s =
     (if get_str (req_country req) \<noteq> []
      then filter_country lower (get_str (req_country req))
             (search_city lower (get_str (req_city_name req)) s)
      else search_city lower (get_str (req_city_name req)) s)"

definition find_city_score ::
  "(string \<Rightarrow> string) \<Rightarrow> score_request \<Rightarrow> state \<Rightarrow> failure + score_result" where
  "find_city_score lower req s =
     (let city_name = get_str (req_city_name req);
          country_name = get_str (req_country req)
      in if city_name = [] then Inl City_name_requis
         else if CITIES_DATA s = [] then Inl Aucune_donnee_chargee
         else let matches = search_city lower city_name s
              in if matches = [] then Inl (Ville_non_trouvee city_name)
                 else if country_name \<noteq> []
                         \<and> filter_country lower country_name matches = []
                 then Inl (Ville_non_trouvee_dans_le_pays city_name country_name)
                 else (case (if country_name \<noteq> []
                             then filter_country lower country_name matches
                             else matches) of
                         [] \<Rightarrow> Inl (Uncaught IndexError)
                       | (key, city_data) # others \<Rightarrow>
                           (case score_record city_data of
                              Inl e \<Rightarrow> Inl (Uncaught e)
                            | Inr res \<Rightarrow> Inr res)))"

section \<open>\<open>list_cities\<close> (GET /cities/list)\<close>

text \<open>
  The query parameters as \<open>float\<close> and \<open>int\<close> return them: \<open>float\<close> accepts \<open>nan\<close> and
  \<open>inf\<close> as well, so \<open>min_quality\<close> and \<open>max_cost\<close> are any float. An absent parameter
  takes the default of the handler.
\<close>

definition get_or :: "'a \<Rightarrow> 'a option \<Rightarrow> 'a" where
  "get_or dflt v = (case v of None \<Rightarrow> dflt | Some x \<Rightarrow> x)"

record list_args =
  arg_country :: "string option"
  arg_min_quality :: "pyfloat option"
  arg_max_cost :: "pyfloat option"
  arg_limit :: "int option"

record city_summary =
  l_city :: string
  l_country :: string
  l_qualityOfLife :: pynum
  l_costOfLiving :: pynum
  l_safety :: pynum

record list_result =
  l_total :: nat
  l_cities :: "city_summary list"

text \<open>The loop of lines 185 to 199; \<open>continue\<close> goes on with the rest.\<close>

fun filter_cities ::
  "(string \<Rightarrow> string) \<Rightarrow> string \<Rightarrow> pyfloat \<Rightarrow> pyfloat \<Rightarrow> (string \<times> city_record) list
     \<Rightarrow> error + city_summary list" where
  "filter_cities lower country_name min_quality max_cost [] = Inr []"
| "filter_cities lower country_name min_quality max_cost ((key, data) # rest) =
     (if country_name \<noteq> [] \<and> \<not> sublist (lower country_name) (lower (country data))
      then filter_cities lower country_name min_quality max_cost rest
      else bind_err (lookup data ''qualityOfLifeIndex'') (\<lambda>q.
        if num_lt_float q min_quality
        then filter_cities lower country_name min_quality max_cost rest
        else bind_err (lookup data ''costOfLivingIndex'') (\<lambda>col.
          if num_gt_float col max_cost
          then filter_cities lower country_name min_quality max_cost rest
          else bind_err (lookup data ''safetyIndex'') (\<lambda>sf.
            bind_err (filter_cities lower country_name min_quality max_cost rest) (\<lambda>out.
              Inr (\<lparr>l_city = city data, l_country = country data,
                    l_qualityOfLife = py_round1 q, l_costOfLiving = py_round1 col,
                    l_safety = py_round1 sf\<rparr> # out))))))"


text \<open>
  \<open>list.sort(key=f, reverse=True)\<close> sorts the reversed list and reverses the result,
  which keeps elements with equal keys in their original order. The keys are numbers of
  the dataset, compared by \<open>num_rank\<close>.
\<close>

definition sort_reverse :: "('a \<Rightarrow> 'k::linorder) \<Rightarrow> 'a list \<Rightarrow> 'a list" where
  "sort_reverse f xs = rev (sort_key f (rev xs))"

text \<open>The slice \<open>xs[:limit]\<close>: a negative limit counts from the end.\<close>

definition slice_to :: "int \<Rightarrow> 'a list \<Rightarrow> 'a list" where
  "slice_to limit xs =
     (if 0 \<le> limit then take (nat limit) xs
      else take (nat (int (length xs) + limit)) xs)"

definition list_cities ::
  "(string \<Rightarrow> string) \<Rightarrow> list_args \<Rightarrow> state \<Rightarrow> failure + list_result" where
  "list_cities lower args s =
     (let country_name = get_str (arg_country args);
          min_quality = get_or (Num (Fin 0)) (arg_min_quality args);
          max_cost = get_or (Num (Fin 200)) (arg_max_cost args);
          limit = get_or 20 (arg_limit args)
      in if CITIES_DATA s = [] then Inl Aucune_donnee_chargee
         else (case filter_cities lower country_name min_quality max_cost (CITIES_DATA s) of
                 Inl e \<Rightarrow> Inl (Uncaught e)
               | Inr filtered \<Rightarrow>
                   (let shown = slice_to limit
                                  (sort_reverse (\<lambda>x. num_rank (l_qualityOfLife x)) filtered)
                    in Inr \<lparr>l_total = length shown, l_cities = shown\<rparr>)))"

section \<open>\<open>get_countries\<close> (GET /countries) and \<open>health_check\<close> (GET /health)\<close>

record country_count =
  c_country :: string
  cityCount :: nat

record countries_result =
  c_total :: nat
  totalCities :: nat
  countries :: "country_count list"

definition get_countries :: "state \<Rightarrow> failure + countries_result" where
  "get_countries s =
     (if COUNTRIES s = [] then Inl Aucune_donnee_chargee
      else Inr \<lparr>c_total = length (COUNTRIES s),
                totalCities = length (CITIES_DATA s),
                countries =
                  map (\<lambda>(country_name, cities).
                         \<lparr>c_country = country_name, cityCount = length cities\<rparr>)
                    (sort_reverse (\<lambda>x. length (snd x)) (COUNTRIES s))\<rparr>)"

record health =
  status :: string
  cities_loaded :: nat
  h_countries :: nat

definition health_check :: "state \<Rightarrow> health" where
  "health_check s =
     \<lparr>status = ''healthy'', cities_loaded = length (CITIES_DATA s),
      h_countries = length (COUNTRIES s)\<rparr>"

section \<open>The properties in the words of the description\<close>

text \<open>
  The weighted formula, \<open>0.25 * q + 0.20 * sf + 0.15 * pp + 0.15 * col' + 0.10 * hc
  + 0.10 * pol' + 0.05 * cl\<close>, evaluated on floats from left to right; \<open>col'\<close> and
  \<open>pol'\<close> stand for \<open>100 - costOfLivingIndex\<close> and \<open>100 - pollutionIndex\<close>.
\<close>

definition weighted_formula :: "fl \<Rightarrow> fl \<Rightarrow> fl \<Rightarrow> fl \<Rightarrow> fl \<Rightarrow> fl \<Rightarrow> fl \<Rightarrow> pyfloat" where
  "weighted_formula q sf pp col' hc pol' cl =
     fadd (fadd (fadd (fadd (fadd (fadd
       (fmul (Num c025) (Num q))
       (fmul (Num c020) (Num sf)))
       (fmul (Num c015) (Num pp)))
       (fmul (Num c015) (Num col')))
       (fmul (Num c010) (Num hc)))
       (fmul (Num c010) (Num pol')))
       (fmul (Num c005) (Num cl))"



text \<open>
  The city names of a country group, in order, and the names of the last group of the
  dataset that carries a given country.
\<close>

definition group_city_names :: "country_data \<Rightarrow> string list" where
  "group_city_names g =
     List.map_filter name_field (case cd_cities g of None \<Rightarrow> [] | Some cs \<Rightarrow> cs)"

fun last_group_cities :: "string \<Rightarrow> country_data list \<Rightarrow> string list option" where
  "last_group_cities c [] = None"
| "last_group_cities c (g # rest) =
     (case last_group_cities c rest of
        Some names \<Rightarrow> Some names
      | None \<Rightarrow> if cd_country g = Some c then Some (group_city_names g) else None)"

text \<open>
  The countries that the groups of a dataset carry, and the composite keys of its cities,
  both in dataset order and with repetitions.
\<close>

definition group_countries :: "country_data list \<Rightarrow> string list" where
  "group_countries cl = List.map_filter cd_country cl"

definition group_keys :: "country_data \<Rightarrow> string list" where
  "group_keys g =
     (case cd_country g of
        None \<Rightarrow> []
      | Some c \<Rightarrow> map (\<lambda>n. city_key n c) (group_city_names g))"

definition dataset_keys :: "country_data list \<Rightarrow> string list" where
  "dataset_keys cl = concat (map group_keys cl)"

text \<open>The sum of the lengths of the sequences of \<open>COUNTRIES\<close>.\<close>

definition count_sum :: "state \<Rightarrow> nat" where
  "count_sum s = sum_list (map (\<lambda>kv. length (snd kv)) (COUNTRIES s))"

text \<open>
  The part of a country group that the loader has processed when the group raises: nothing
  when the country is missing; otherwise the country with the cities that precede the
  first city without a name (none when the \<open>cities\<close> key is missing).
\<close>

definition processed_part :: "country_data \<Rightarrow> country_data list" where
  "processed_part g =
     (case cd_country g of
        None \<Rightarrow> []
      | Some c \<Rightarrow>
          [\<lparr>cd_country = Some c,
            cd_cities =
              Some (case cd_cities g of
                      None \<Rightarrow> []
                    | Some cs \<Rightarrow> takeWhile (\<lambda>x. name_field x \<noteq> None) cs)\<rparr>])"

section \<open>Example datasets\<close>

text \<open>The dataset of the end-to-end example: one country, Germany, with one city, Berlin.\<close>

definition berlin_obj :: city_obj where
  "berlin_obj =
     \<lparr>name_field = Some ''Berlin'', country_field = None,
      indices = [''qualityOfLifeIndex'' \<mapsto> PyInt 180, ''safetyIndex'' \<mapsto> PyInt 85,
                 ''purchasingPowerIndex'' \<mapsto> PyInt 70, ''costOfLivingIndex'' \<mapsto> PyInt 60,
                 ''healthCareIndex'' \<mapsto> PyInt 80, ''pollutionIndex'' \<mapsto> PyInt 30,
                 ''climateIndex'' \<mapsto> PyInt 65,
                 ''propertyPriceToIncomeRatio'' \<mapsto> PyFloat (Fin (19 / 2)),
                 ''trafficCommuteTimeIndex'' \<mapsto> PyFloat (Fin (129 / 4))]\<rparr>"

definition germany_source :: source where
  "germany_source = Parsed [\<lparr>cd_country = Some ''Germany'', cd_cities = Some [berlin_obj]\<rparr>]"

definition berlin_record :: city_record where
  "berlin_record = make_record ''Berlin'' ''Germany'' berlin_obj"

definition germany_state :: state where
  "germany_state =
     \<lparr>CITIES_DATA = [(''Berlin, Germany'', berlin_record)],
      COUNTRIES = [(''Germany'', [''Berlin''])]\<rparr>"

definition berlin_request :: score_request where
  "berlin_request = \<lparr>req_city_name = Some ''Berlin'', req_country = Some ''Germany''\<rparr>"

text \<open>Berlin again, with other values for the two indices that the score does not read.\<close>

definition berlin_variant :: city_obj where
  "berlin_variant =
     berlin_obj\<lparr>indices := (indices berlin_obj)(''propertyPriceToIncomeRatio'' \<mapsto> PyInt 20,
                                                ''trafficCommuteTimeIndex'' \<mapsto> PyInt 50)\<rparr>"

definition variant_state :: state where
  "variant_state =
     startup (Parsed [\<lparr>cd_country = Some ''Germany'', cd_cities = Some [berlin_variant]\<rparr>])"

text \<open>
  A one-city dataset with given integer values for the seven indices of the score, and the
  request that finds its city.
\<close>

definition probe_obj :: "int \<Rightarrow> int \<Rightarrow> int \<Rightarrow> int \<Rightarrow> int \<Rightarrow> int \<Rightarrow> int \<Rightarrow> city_obj" where
  "probe_obj q sf pp col hc pol cl =
     \<lparr>name_field = Some ''Tierville'', country_field = None,
      indices = [''qualityOfLifeIndex'' \<mapsto> PyInt q, ''safetyIndex'' \<mapsto> PyInt sf,
                 ''purchasingPowerIndex'' \<mapsto> PyInt pp, ''costOfLivingIndex'' \<mapsto> PyInt col,
                 ''healthCareIndex'' \<mapsto> PyInt hc, ''pollutionIndex'' \<mapsto> PyInt pol,
                 ''climateIndex'' \<mapsto> PyInt cl, ''propertyPriceToIncomeRatio'' \<mapsto> PyInt 1,
                 ''trafficCommuteTimeIndex'' \<mapsto> PyInt 1]\<rparr>"

definition probe_record :: "city_obj \<Rightarrow> city_record" where
  "probe_record obj = make_record ''Tierville'' ''Testland'' obj"

definition probe_state :: "city_obj \<Rightarrow> state" where
  "probe_state obj =
     \<lparr>CITIES_DATA = [(''Tierville, Testland'', probe_record obj)],
      COUNTRIES = [(''Testland'', [''Tierville''])]\<rparr>"

definition probe_request :: score_request where
  "probe_request = \<lparr>req_city_name = Some ''tier'', req_country = None\<rparr>"

text \<open>Munich, whose score is not a multiple of a power of two.\<close>

definition munich_obj :: city_obj where
  "munich_obj =
     \<lparr>name_field = Some ''Munich'', country_field = None,
      indices = [''qualityOfLifeIndex'' \<mapsto> PyInt 190, ''safetyIndex'' \<mapsto> PyInt 80,
                 ''purchasingPowerIndex'' \<mapsto> PyInt 75, ''costOfLivingIndex'' \<mapsto> PyInt 70,
                 ''healthCareIndex'' \<mapsto> PyInt 78, ''pollutionIndex'' \<mapsto> PyInt 25,
                 ''climateIndex'' \<mapsto> PyInt 60, ''propertyPriceToIncomeRatio'' \<mapsto> PyInt 12,
                 ''trafficCommuteTimeIndex'' \<mapsto> PyInt 30]\<rparr>"

definition munich_record :: city_record where
  "munich_record = make_record ''Munich'' ''Germany'' munich_obj"

definition munich_request :: score_request where
  "munich_request = \<lparr>req_city_name = Some ''munich'', req_country = None\<rparr>"

text \<open>Germany with two cities, and listing queries.\<close>

definition two_cities_state :: state where
  "two_cities_state =
     startup (Parsed [\<lparr>cd_country = Some ''Germany'',
                       cd_cities = Some [berlin_obj, munich_obj]\<rparr>])"





text \<open>A city whose quality-of-life index exceeds 999, and the query \<open>min_quality=999\<close>.\<close>

definition utopia_obj :: city_obj where
  "utopia_obj =
     \<lparr>name_field = Some ''Utopia'', country_field = None,
      indices = [''qualityOfLifeIndex'' \<mapsto> PyInt 1000, ''costOfLivingIndex'' \<mapsto> PyInt 50,
                 ''safetyIndex'' \<mapsto> PyInt 90]\<rparr>"

definition utopia_state :: state where
  "utopia_state =
     startup (Parsed [\<lparr>cd_country = Some ''Nowhere'', cd_cities = Some [utopia_obj]\<rparr>])"

definition min_quality_999 :: list_args where
  "min_quality_999 =
     \<lparr>arg_country = None, arg_min_quality = Some (Num (Fin 999)), arg_max_cost = None,
      arg_limit = None\<rparr>"

text \<open>A dataset whose second country group has no \<open>"country"\<close> key.\<close>

definition partial_groups :: "country_data list" where
  "partial_groups =
     [\<lparr>cd_country = Some ''Germany'', cd_cities = Some [berlin_obj]\<rparr>,
      \<lparr>cd_country = None, cd_cities = None\<rparr>]"

text \<open>
  Germany in two groups, with the state the loader builds from it; and a group that lists
  Berlin twice, followed by a country without cities.
\<close>

definition repeated_groups :: "country_data list" where
  "repeated_groups =
     [\<lparr>cd_country = Some ''Germany'', cd_cities = Some [berlin_obj]\<rparr>,
      \<lparr>cd_country = Some ''Germany'', cd_cities = Some [munich_obj]\<rparr>]"

definition repeated_state :: state where
  "repeated_state =
     \<lparr>CITIES_DATA = [(''Berlin, Germany'', make_record ''Berlin'' ''Germany'' berlin_obj),
                     (''Munich, Germany'', make_record ''Munich'' ''Germany'' munich_obj)],
      COUNTRIES = [(''Germany'', [''Munich''])]\<rparr>"

definition duplicate_groups :: "country_data list" where
  "duplicate_groups =
     [\<lparr>cd_country = Some ''Germany'', cd_cities = Some [berlin_obj, berlin_obj]\<rparr>,
      \<lparr>cd_country = Some ''France'', cd_cities = Some []\<rparr>]"

text \<open>
  Germany with Berlin, then Germany again with Munich and a city without a name: the load
  fails in the second group, after Munich.
\<close>

definition nameless_obj :: city_obj where
  "nameless_obj = \<lparr>name_field = None, country_field = None, indices = Map.empty\<rparr>"

definition failing_groups :: "country_data list" where
  "failing_groups =
     [\<lparr>cd_country = Some ''Germany'', cd_cities = Some [berlin_obj]\<rparr>,
      \<lparr>cd_country = Some ''Germany'', cd_cities = Some [munich_obj, nameless_obj]\<rparr>]"

text \<open>
  Three probes: a record whose score is exactly 120, one whose exact weighted sum is 120
  but whose float score is just below, and one with an \<open>int\<close> too large for a float.
\<close>

definition exact120_obj :: city_obj where
  "exact120_obj = probe_obj 240 100 100 0 50 50 0"

definition edge120_obj :: city_obj where
  "edge120_obj = probe_obj 208 74 159 58 96 15 99"

definition huge_obj :: city_obj where
  "huge_obj = probe_obj (2 ^ 1024) 0 0 0 0 0 0"

section \<open>Properties of the binary64 arithmetic\<close>

text \<open>
  \<open>ilog2 x\<close> is the binary exponent of \<open>x\<close>, and it is the only integer between whose
  powers of two \<open>\<bar>x\<bar>\<close> lies; so \<open>rd\<close> can be computed with any exponent known to fit.
\<close>

lemma pow2_pos: "0 < pow2 t"
  by (simp add: pow2_def)

lemma pow2_less_iff: "pow2 a < pow2 b \<longleftrightarrow> a < b"
proof
  assume "pow2 a < pow2 b"
  show "a < b"
  proof (rule ccontr)
    assume "\<not> a < b"
    then have "b \<le> a" by simp
    then have "pow2 b \<le> pow2 a"
      unfolding pow2_def by (intro power_int_increasing) simp_all
    with \<open>pow2 a < pow2 b\<close> show False by simp
  qed
next
  assume "a < b"
  then show "pow2 a < pow2 b"
    unfolding pow2_def by (intro power_int_strict_increasing) simp_all
qed

lemma pow2_nat: "0 \<le> t \<Longrightarrow> pow2 t = 2 ^ nat t"
  by (simp add: pow2_def power_int_def)

lemma pow2_neg: "pow2 (- t) = 1 / pow2 t"
  by (simp add: pow2_def power_int_minus_divide)

lemma ilog2_bounds:
  assumes "x \<noteq> 0"
  shows "pow2 (ilog2 x) \<le> \<bar>x\<bar> \<and> \<bar>x\<bar> < pow2 (ilog2 x + 1)"
proof (cases "1 \<le> \<bar>x\<bar>")
  case True
  define n where "n = \<lfloor>\<bar>x\<bar>\<rfloor>"
  have n: "1 \<le> n" "of_int n \<le> \<bar>x\<bar>" "\<bar>x\<bar> < of_int n + 1"
  proof -
    show "1 \<le> n" using True by (simp add: n_def le_floor_iff)
    show "of_int n \<le> \<bar>x\<bar>" by (simp add: n_def)
    show "\<bar>x\<bar> < of_int n + 1" unfolding n_def by linarith
  qed
  define b where "b = bitlen n"
  have bb: "2 ^ nat (b - 1) \<le> n" "n < 2 ^ nat b"
    using bitlen_bounds[of n] n(1) by (simp_all add: b_def)
  have b1: "1 \<le> b"
    using n(1) bitlen_eq_zero_iff[of n] bitlen_nonneg[of n] by (simp add: b_def)
  have e: "ilog2 x = b - 1"
    using True by (simp add: ilog2_def n_def b_def)
  have lo: "pow2 (b - 1) \<le> \<bar>x\<bar>"
  proof -
    have "pow2 (b - 1) = of_int (2 ^ nat (b - 1))"
      using b1 by (simp add: pow2_nat)
    also have "\<dots> \<le> of_int n"
      using bb(1) by (simp only: of_int_le_iff)
    finally show ?thesis using n(2) by simp
  qed
  have hi: "\<bar>x\<bar> < pow2 b"
  proof -
    have "n + 1 \<le> 2 ^ nat b" using bb(2) by simp
    then have "(of_int (n + 1) :: real) \<le> of_int (2 ^ nat b)"
      by (simp only: of_int_le_iff)
    then have "of_int n + 1 \<le> pow2 b"
      using b1 by (simp add: pow2_nat)
    with n(3) show ?thesis by simp
  qed
  show ?thesis using lo hi by (simp add: e)
next
  case False
  define y where "y = 1 / \<bar>x\<bar>"
  have xpos: "0 < \<bar>x\<bar>" using assms by simp
  have y1: "1 < y"
    using False xpos by (simp add: y_def)
  define m where "m = \<lceil>y\<rceil>"
  have m: "2 \<le> m" "of_int m - 1 < y" "y \<le> of_int m"
  proof -
    have "1 < \<lceil>y\<rceil>" using y1 by (simp add: less_ceiling_iff)
    then show "2 \<le> m" by (simp add: m_def)
    show "of_int m - 1 < y" unfolding m_def by linarith
    show "y \<le> of_int m" by (simp add: m_def)
  qed
  define b where "b = bitlen (m - 1)"
  have bb: "2 ^ nat (b - 1) \<le> m - 1" "m - 1 < 2 ^ nat b"
    using bitlen_bounds[of "m - 1"] m(1) by (simp_all add: b_def)
  have b1: "1 \<le> b"
    using m(1) bitlen_eq_zero_iff[of "m - 1"] bitlen_nonneg[of "m - 1"] by (simp add: b_def)
  have e: "ilog2 x = - b"
    using False by (simp add: ilog2_def m_def b_def y_def)
  have ylo: "pow2 (b - 1) < y"
  proof -
    have "pow2 (b - 1) = of_int (2 ^ nat (b - 1))"
      using b1 by (simp add: pow2_nat)
    also have "\<dots> \<le> of_int (m - 1)"
      using bb(1) by (simp only: of_int_le_iff)
    finally show ?thesis using m(2) by simp
  qed
  have yhi: "y \<le> pow2 b"
  proof -
    have "m \<le> 2 ^ nat b" using bb(2) by simp
    then have "(of_int m :: real) \<le> of_int (2 ^ nat b)"
      by (simp only: of_int_le_iff)
    then have "of_int m \<le> pow2 b"
      using b1 by (simp add: pow2_nat)
    with m(3) show ?thesis by simp
  qed
  have x: "\<bar>x\<bar> = 1 / y" by (simp add: y_def)
  have lo: "pow2 (- b) \<le> \<bar>x\<bar>"
    unfolding x pow2_neg using yhi y1 pow2_pos[of b]
    by (simp add: field_simps)
  have eq: "pow2 (- b + 1) = 1 / pow2 (b - 1)"
    using pow2_neg[of "b - 1"] by simp
  have "1 / y < 1 / pow2 (b - 1)"
    using ylo y1 pow2_pos[of "b - 1"] by (simp add: field_simps)
  then have hi: "\<bar>x\<bar> < pow2 (- b + 1)"
    unfolding x eq .
  show ?thesis using lo hi by (simp add: e)
qed

lemma ilog2_unique:
  assumes "x \<noteq> 0" "pow2 e \<le> \<bar>x\<bar>" "\<bar>x\<bar> < pow2 (e + 1)"
  shows "ilog2 x = e"
proof -
  have b: "pow2 (ilog2 x) \<le> \<bar>x\<bar>" "\<bar>x\<bar> < pow2 (ilog2 x + 1)"
    using ilog2_bounds[OF assms(1)] by simp_all
  have "pow2 e < pow2 (ilog2 x + 1)" using assms(2) b(2) by simp
  then have 1: "e < ilog2 x + 1" by (simp add: pow2_less_iff)
  have "pow2 (ilog2 x) < pow2 (e + 1)" using assms(3) b(1) by simp
  then have 2: "ilog2 x < e + 1" by (simp add: pow2_less_iff)
  from 1 2 show ?thesis by simp
qed


lemma rd_eval:
  assumes "x \<noteq> 0" "pow2 e \<le> \<bar>x\<bar>" "\<bar>x\<bar> < pow2 (e + 1)"
  shows "rd x = round_at e x"
  using assms by (simp add: rd_def ilog2_unique)

text \<open>
  The roundings that the examples need. The literals \<open>0.20\<close>, \<open>0.15\<close>, \<open>0.10\<close> and
  \<open>0.05\<close> are not binary fractions: \<open>0.10\<close> is \<open>3602879701896397 / 2 ^ 55\<close>.
\<close>

lemma rd_eval_1: "rd (1 / 4) = Fin (1 / 4)"
  by (simp add: rd_eval[where e = "-2"] round_at_def pow2_def round_half_even_def Let_def)

lemma rd_eval_2: "rd (1 / 5) = Fin (3602879701896397 / 18014398509481984)"
  by (simp add: rd_eval[where e = "-3"] round_at_def pow2_def round_half_even_def Let_def)

lemma rd_eval_3: "rd (3 / 20) = Fin (5404319552844595 / 36028797018963968)"
  by (simp add: rd_eval[where e = "-3"] round_at_def pow2_def round_half_even_def Let_def)

lemma rd_eval_4: "rd (1 / 10) = Fin (3602879701896397 / 36028797018963968)"
  by (simp add: rd_eval[where e = "-4"] round_at_def pow2_def round_half_even_def Let_def)

lemma rd_eval_5: "rd (1 / 20) = Fin (3602879701896397 / 72057594037927936)"
  by (simp add: rd_eval[where e = "-5"] round_at_def pow2_def round_half_even_def Let_def)

lemma rd_eval_6: "rd 180 = Fin 180"
  by (simp add: rd_eval[where e = "7"] round_at_def pow2_def round_half_even_def Let_def)

lemma rd_eval_7: "rd 45 = Fin 45"
  by (simp add: rd_eval[where e = "5"] round_at_def pow2_def round_half_even_def Let_def)

lemma rd_eval_8: "rd 85 = Fin 85"
  by (simp add: rd_eval[where e = "6"] round_at_def pow2_def round_half_even_def Let_def)

lemma rd_eval_9: "rd (306244774661193745 / 18014398509481984) = Fin 17"
  by (simp add: rd_eval[where e = "4"] round_at_def pow2_def round_half_even_def Let_def)

lemma rd_eval_10: "rd 62 = Fin 62"
  by (simp add: rd_eval[where e = "5"] round_at_def pow2_def round_half_even_def Let_def)

lemma rd_eval_11: "rd 70 = Fin 70"
  by (simp add: rd_eval[where e = "6"] round_at_def pow2_def round_half_even_def Let_def)

lemma rd_eval_12: "rd (189151184349560825 / 18014398509481984) = Fin (21 / 2)"
  by (simp add: rd_eval[where e = "3"] round_at_def pow2_def round_half_even_def Let_def)

lemma rd_eval_13: "rd (145 / 2) = Fin (145 / 2)"
  by (simp add: rd_eval[where e = "6"] round_at_def pow2_def round_half_even_def Let_def)

lemma rd_eval_14: "rd 40 = Fin 40"
  by (simp add: rd_eval[where e = "5"] round_at_def pow2_def round_half_even_def Let_def)

lemma rd_eval_15: "rd (27021597764222975 / 4503599627370496) = Fin 6"
  by (simp add: rd_eval[where e = "2"] round_at_def pow2_def round_half_even_def Let_def)

lemma rd_eval_16: "rd (157 / 2) = Fin (157 / 2)"
  by (simp add: rd_eval[where e = "6"] round_at_def pow2_def round_half_even_def Let_def)

lemma rd_eval_17: "rd 80 = Fin 80"
  by (simp add: rd_eval[where e = "6"] round_at_def pow2_def round_half_even_def Let_def)

lemma rd_eval_18: "rd (18014398509481985 / 2251799813685248) = Fin 8"
  by (simp add: rd_eval[where e = "3"] round_at_def pow2_def round_half_even_def Let_def)

lemma rd_eval_19: "rd (173 / 2) = Fin (173 / 2)"
  by (simp add: rd_eval[where e = "6"] round_at_def pow2_def round_half_even_def Let_def)

lemma rd_eval_20: "rd (126100789566373895 / 18014398509481984) = Fin 7"
  by (simp add: rd_eval[where e = "2"] round_at_def pow2_def round_half_even_def Let_def)

lemma rd_eval_21: "rd (187 / 2) = Fin (187 / 2)"
  by (simp add: rd_eval[where e = "6"] round_at_def pow2_def round_half_even_def Let_def)

lemma rd_eval_22: "rd 65 = Fin 65"
  by (simp add: rd_eval[where e = "6"] round_at_def pow2_def round_half_even_def Let_def)

lemma rd_eval_23: "rd (234187180623265805 / 72057594037927936) = Fin (13 / 4)"
  by (simp add: rd_eval[where e = "1"] round_at_def pow2_def round_half_even_def Let_def)

lemma rd_eval_24: "rd (387 / 4) = Fin (387 / 4)"
  by (simp add: rd_eval[where e = "6"] round_at_def pow2_def round_half_even_def Let_def)

lemma rd_eval_25: "rd (484 / 5) = Fin (6811694436397875 / 70368744177664)"
  by (simp add: rd_eval[where e = "6"] round_at_def pow2_def round_half_even_def Let_def)

lemma rd_eval_26: "rd 190 = Fin 190"
  by (simp add: rd_eval[where e = "7"] round_at_def pow2_def round_half_even_def Let_def)

lemma rd_eval_27: "rd (95 / 2) = Fin (95 / 2)"
  by (simp add: rd_eval[where e = "5"] round_at_def pow2_def round_half_even_def Let_def)

lemma rd_eval_28: "rd (18014398509481985 / 1125899906842624) = Fin 16"
  by (simp add: rd_eval[where e = "4"] round_at_def pow2_def round_half_even_def Let_def)

lemma rd_eval_29: "rd (127 / 2) = Fin (127 / 2)"
  by (simp add: rd_eval[where e = "5"] round_at_def pow2_def round_half_even_def Let_def)

lemma rd_eval_30: "rd 75 = Fin 75"
  by (simp add: rd_eval[where e = "6"] round_at_def pow2_def round_half_even_def Let_def)

lemma rd_eval_31: "rd (405323966463344625 / 36028797018963968) = Fin (45 / 4)"
  by (simp add: rd_eval[where e = "3"] round_at_def pow2_def round_half_even_def Let_def)

lemma rd_eval_32: "rd (299 / 4) = Fin (299 / 4)"
  by (simp add: rd_eval[where e = "6"] round_at_def pow2_def round_half_even_def Let_def)

lemma rd_eval_33: "rd 30 = Fin 30"
  by (simp add: rd_eval[where e = "4"] round_at_def pow2_def round_half_even_def Let_def)

lemma rd_eval_34: "rd (81064793292668925 / 18014398509481984) = Fin (9 / 2)"
  by (simp add: rd_eval[where e = "2"] round_at_def pow2_def round_half_even_def Let_def)

lemma rd_eval_35: "rd (317 / 4) = Fin (317 / 4)"
  by (simp add: rd_eval[where e = "6"] round_at_def pow2_def round_half_even_def Let_def)

lemma rd_eval_36: "rd 78 = Fin 78"
  by (simp add: rd_eval[where e = "6"] round_at_def pow2_def round_half_even_def Let_def)

lemma rd_eval_37: "rd (140512308373959483 / 18014398509481984) = Fin (2195504818343117 / 281474976710656)"
  by (simp add: rd_eval[where e = "2"] round_at_def pow2_def round_half_even_def Let_def)

lemma rd_eval_38: "rd (24502396722662605 / 281474976710656) = Fin (6125599180665651 / 70368744177664)"
  by (simp add: rd_eval[where e = "6"] round_at_def pow2_def round_half_even_def Let_def)

lemma rd_eval_39: "rd (270215977642229775 / 36028797018963968) = Fin (15 / 2)"
  by (simp add: rd_eval[where e = "2"] round_at_def pow2_def round_half_even_def Let_def)

lemma rd_eval_40: "rd (6653364761998131 / 70368744177664) = Fin (6653364761998131 / 70368744177664)"
  by (simp add: rd_eval[where e = "6"] round_at_def pow2_def round_half_even_def Let_def)

lemma rd_eval_41: "rd 60 = Fin 60"
  by (simp add: rd_eval[where e = "5"] round_at_def pow2_def round_half_even_def Let_def)

lemma rd_eval_42: "rd (54043195528445955 / 18014398509481984) = Fin 3"
  by (simp add: rd_eval[where e = "1"] round_at_def pow2_def round_half_even_def Let_def)

lemma rd_eval_43: "rd (6864470994531123 / 70368744177664) = Fin (6864470994531123 / 70368744177664)"
  by (simp add: rd_eval[where e = "6"] round_at_def pow2_def round_half_even_def Let_def)

lemma rd_eval_44: "rd (195 / 2) = Fin (195 / 2)"
  by (simp add: rd_eval[where e = "6"] round_at_def pow2_def round_half_even_def Let_def)

lemma rd_eval_45: "rd 240 = Fin 240"
  by (simp add: rd_eval[where e = "7"] round_at_def pow2_def round_half_even_def Let_def)

lemma rd_eval_46: "rd 100 = Fin 100"
  by (simp add: rd_eval[where e = "6"] round_at_def pow2_def round_half_even_def Let_def)

lemma rd_eval_47: "rd (90071992547409925 / 4503599627370496) = Fin 20"
  by (simp add: rd_eval[where e = "4"] round_at_def pow2_def round_half_even_def Let_def)

lemma rd_eval_48: "rd (135107988821114875 / 9007199254740992) = Fin 15"
  by (simp add: rd_eval[where e = "3"] round_at_def pow2_def round_half_even_def Let_def)

lemma rd_eval_49: "rd 95 = Fin 95"
  by (simp add: rd_eval[where e = "6"] round_at_def pow2_def round_half_even_def Let_def)

lemma rd_eval_50: "rd 110 = Fin 110"
  by (simp add: rd_eval[where e = "6"] round_at_def pow2_def round_half_even_def Let_def)

lemma rd_eval_51: "rd 50 = Fin 50"
  by (simp add: rd_eval[where e = "5"] round_at_def pow2_def round_half_even_def Let_def)

lemma rd_eval_52: "rd (90071992547409925 / 18014398509481984) = Fin 5"
  by (simp add: rd_eval[where e = "2"] round_at_def pow2_def round_half_even_def Let_def)

lemma rd_eval_53: "rd 115 = Fin 115"
  by (simp add: rd_eval[where e = "6"] round_at_def pow2_def round_half_even_def Let_def)

lemma rd_eval_54: "rd 120 = Fin 120"
  by (simp add: rd_eval[where e = "6"] round_at_def pow2_def round_half_even_def Let_def)

lemma rd_eval_55: "rd 208 = Fin 208"
  by (simp add: rd_eval[where e = "7"] round_at_def pow2_def round_half_even_def Let_def)

lemma rd_eval_56: "rd 52 = Fin 52"
  by (simp add: rd_eval[where e = "5"] round_at_def pow2_def round_half_even_def Let_def)

lemma rd_eval_57: "rd 74 = Fin 74"
  by (simp add: rd_eval[where e = "6"] round_at_def pow2_def round_half_even_def Let_def)

lemma rd_eval_58: "rd (133306548970166689 / 9007199254740992) = Fin (4165829655317709 / 281474976710656)"
  by (simp add: rd_eval[where e = "3"] round_at_def pow2_def round_half_even_def Let_def)

lemma rd_eval_59: "rd (18802528444271821 / 281474976710656) = Fin (4700632111067955 / 70368744177664)"
  by (simp add: rd_eval[where e = "6"] round_at_def pow2_def round_half_even_def Let_def)

lemma rd_eval_60: "rd 159 = Fin 159"
  by (simp add: rd_eval[where e = "7"] round_at_def pow2_def round_half_even_def Let_def)

lemma rd_eval_61: "rd (859286808902290605 / 36028797018963968) = Fin (6713178194549145 / 281474976710656)"
  by (simp add: rd_eval[where e = "4"] round_at_def pow2_def round_half_even_def Let_def)

lemma rd_eval_62: "rd (25515706638820965 / 281474976710656) = Fin (6378926659705241 / 70368744177664)"
  by (simp add: rd_eval[where e = "6"] round_at_def pow2_def round_half_even_def Let_def)

lemma rd_eval_63: "rd 42 = Fin 42"
  by (simp add: rd_eval[where e = "5"] round_at_def pow2_def round_half_even_def Let_def)

lemma rd_eval_64: "rd (113490710609736495 / 18014398509481984) = Fin (7093169413108531 / 1125899906842624)"
  by (simp add: rd_eval[where e = "2"] round_at_def pow2_def round_half_even_def Let_def)

lemma rd_eval_65: "rd (109155995968392387 / 1125899906842624) = Fin (1705562437006131 / 17592186044416)"
  by (simp add: rd_eval[where e = "6"] round_at_def pow2_def round_half_even_def Let_def)

lemma rd_eval_66: "rd 96 = Fin 96"
  by (simp add: rd_eval[where e = "6"] round_at_def pow2_def round_half_even_def Let_def)

lemma rd_eval_67: "rd (10808639105689191 / 1125899906842624) = Fin (1351079888211149 / 140737488355328)"
  by (simp add: rd_eval[where e = "3"] round_at_def pow2_def round_half_even_def Let_def)

lemma rd_eval_68: "rd (14995579384260197 / 140737488355328) = Fin (3748894846065049 / 35184372088832)"
  by (simp add: rd_eval[where e = "6"] round_at_def pow2_def round_half_even_def Let_def)

lemma rd_eval_69: "rd (306244774661193745 / 36028797018963968) = Fin (17 / 2)"
  by (simp add: rd_eval[where e = "3"] round_at_def pow2_def round_half_even_def Let_def)

lemma rd_eval_70: "rd (4047962008820121 / 35184372088832) = Fin (4047962008820121 / 35184372088832)"
  by (simp add: rd_eval[where e = "6"] round_at_def pow2_def round_half_even_def Let_def)

lemma rd_eval_71: "rd 99 = Fin 99"
  by (simp add: rd_eval[where e = "6"] round_at_def pow2_def round_half_even_def Let_def)

lemma rd_eval_72: "rd (356685090487743303 / 72057594037927936) = Fin (5573204538870989 / 1125899906842624)"
  by (simp add: rd_eval[where e = "2"] round_at_def pow2_def round_half_even_def Let_def)

lemma rd_eval_73: "rd (135107988821114861 / 1125899906842624) = Fin (8444249301319679 / 70368744177664)"
  by (simp add: rd_eval[where e = "6"] round_at_def pow2_def round_half_even_def Let_def)

lemma rd_eval_74: "rd (19 / 2) = Fin (19 / 2)"
  by (simp add: rd_eval[where e = "3"] round_at_def pow2_def round_half_even_def Let_def)

lemma rd_eval_75: "rd (161 / 5) = Fin (2265873562520781 / 70368744177664)"
  by (simp add: rd_eval[where e = "5"] round_at_def pow2_def round_half_even_def Let_def)

lemma rd_eval_76: "rd 179769313486231590772930519078902473361797697894230657273430081157732675805500963132708477322407536021120113879871393357658789768814416622492847430639474124377767893424865485276302219601246094119453082952085005768838150682342462881473913110540827237163350510684586298239947245938479716304835356329624224137216 = PInf"
  by (simp add: rd_eval[where e = "1024"] round_at_def pow2_def round_half_even_def Let_def)

lemma c025_value: "c025 = Fin (1 / 4)"
  by (simp add: c025_def rd_eval_1)

lemma c020_value: "c020 = Fin (3602879701896397 / 18014398509481984)"
  by (simp add: c020_def rd_eval_2)

lemma c015_value: "c015 = Fin (5404319552844595 / 36028797018963968)"
  by (simp add: c015_def rd_eval_3)

lemma c010_value: "c010 = Fin (3602879701896397 / 36028797018963968)"
  by (simp add: c010_def rd_eval_4)

lemma c005_value: "c005 = Fin (3602879701896397 / 72057594037927936)"
  by (simp add: c005_def rd_eval_5)

lemma fmul_commute: "fmul a b = fmul b a"
proof (cases a)
  case NaN
  then show ?thesis by (cases b) simp_all
next
  case (Num x)
  show ?thesis
  proof (cases b)
    case NaN
    then show ?thesis using Num by simp
  next
    case b: (Num y)
    show ?thesis
      by (cases x; cases y) (simp_all add: Num b mult.commute)
  qed
qed

lemma round_half_even_near: "\<bar>of_int (round_half_even y) - y\<bar> \<le> 1 / 2"
proof -
  have "of_int \<lfloor>y\<rfloor> \<le> y" "y < of_int \<lfloor>y\<rfloor> + 1"
    by linarith+
  then show ?thesis
    by (auto simp: round_half_even_def Let_def abs_le_iff)
qed

lemma round1_float_near:
  "\<exists>k. round1_float (Num (Fin x)) = Num (rd (of_int k / 10)) \<and> \<bar>of_int k / 10 - x\<bar> \<le> 1 / 20"
proof -
  define k where "k = round_half_even (x * 10)"
  have "\<bar>of_int k - x * 10\<bar> \<le> 1 / 2"
    unfolding k_def by (rule round_half_even_near)
  then have "\<bar>of_int k / 10 - x\<bar> \<le> 1 / 20"
    by (simp add: abs_le_iff field_simps)
  moreover have "round1_float (Num (Fin x)) = Num (rd (of_int k / 10))"
    by (simp add: round1_float_def round1_fl_def k_def)
  ultimately show ?thesis by blast
qed

section \<open>Properties of \<open>find_city_score\<close>\<close>

lemma search_city_Nil: "CITIES_DATA s = [] \<Longrightarrow> search_city lower n s = []"
  by (simp add: search_city_def)

lemma final_matches_Cons_search:
  "final_matches lower req s = m # ms \<Longrightarrow>
     search_city lower (get_str (req_city_name req)) s \<noteq> []"
  by (auto simp: final_matches_def filter_country_def split: if_splits)

lemma find_city_score_selected:
  assumes "get_str (req_city_name req) \<noteq> []"
    and "final_matches lower req s = (key, d) # others"
  shows "find_city_score lower req s =
           (case score_record d of Inl e \<Rightarrow> Inl (Uncaught e) | Inr res \<Rightarrow> Inr res)"
proof -
  have m: "search_city lower (get_str (req_city_name req)) s \<noteq> []"
    using assms(2) by (rule final_matches_Cons_search)
  then have c: "CITIES_DATA s \<noteq> []"
    using search_city_Nil by blast
  show ?thesis
    using assms m c
    by (auto simp: find_city_score_def final_matches_def Let_def split: if_splits)
qed

lemma times_Inr: "to_float x = Inr f \<Longrightarrow> times x c = Inr (fmul (Num c) (Num f))"
  by (simp add: times_def fmul_commute)

lemma stage_score_present:
  assumes "index d ''qualityOfLifeIndex'' = Some q"
    and "index d ''safetyIndex'' = Some sf"
    and "index d ''purchasingPowerIndex'' = Some pp"
    and "index d ''costOfLivingIndex'' = Some col"
    and "index d ''healthCareIndex'' = Some hc"
    and "index d ''pollutionIndex'' = Some pol"
    and "index d ''climateIndex'' = Some cl"
    and "to_float q = Inr fq"
    and "to_float sf = Inr fsf"
    and "to_float pp = Inr fpp"
    and "to_float (hundred_minus col) = Inr fcol"
    and "to_float hc = Inr fhc"
    and "to_float (hundred_minus pol) = Inr fpol"
    and "to_float cl = Inr fcl"
  shows "stage_score d = Inr (weighted_formula fq fsf fpp fcol fhc fpol fcl)"
  using assms(1-7)
  by (simp add: stage_score_def lookup_def weighted_formula_def times_Inr[OF assms(8)]
      times_Inr[OF assms(9)] times_Inr[OF assms(10)] times_Inr[OF assms(11)]
      times_Inr[OF assms(12)] times_Inr[OF assms(13)] times_Inr[OF assms(14)])

lemma displayed_scores_present:
  assumes "index d ''qualityOfLifeIndex'' = Some q"
    and "index d ''safetyIndex'' = Some sf"
    and "index d ''purchasingPowerIndex'' = Some pp"
    and "index d ''costOfLivingIndex'' = Some col"
    and "index d ''healthCareIndex'' = Some hc"
    and "index d ''pollutionIndex'' = Some pol"
    and "index d ''climateIndex'' = Some cl"
    and "index d ''propertyPriceToIncomeRatio'' = Some ppi"
    and "index d ''trafficCommuteTimeIndex'' = Some tct"
  shows "displayed_scores d =
           Inr \<lparr>qualityOfLife = py_round1 q, purchasingPower = py_round1 pp,
            safety = py_round1 sf, healthCare = py_round1 hc,
            costOfLiving = py_round1 col, propertyPriceToIncome = py_round1 ppi,
            trafficCommuteTime = py_round1 tct, pollution = py_round1 pol,
            climate = py_round1 cl\<rparr>"
  using assms by (simp add: displayed_scores_def lookup_def)

lemma score_record_Inr:
  assumes "stage_score d = Inr sc" and "displayed_scores d = Inr shown"
  shows "score_record d =
           Inr \<lparr>found = True, res_city = city d, res_country = country d,
            res_scores = shown, internshipScore = round1_float sc,
            recommendation = fst (classify sc),
            recommendationLevel = snd (classify sc)\<rparr>"
  using assms by (simp add: score_record_def)

lemma score_record_InrD:
  assumes "score_record d = Inr res"
  shows "\<exists>sc. stage_score d = Inr sc \<and> internshipScore res = round1_float sc
           \<and> recommendation res = fst (classify sc)
           \<and> recommendationLevel res = snd (classify sc)"
proof (cases "stage_score d")
  case (Inl e)
  with assms show ?thesis by (simp add: score_record_def)
next
  case sc: (Inr sc)
  show ?thesis
  proof (cases "displayed_scores d")
    case (Inl e)
    with assms sc show ?thesis by (simp add: score_record_def)
  next
    case (Inr shown)
    with assms sc show ?thesis by (auto simp: score_record_def)
  qed
qed

lemma find_city_score_InrD:
  assumes "get_str (req_city_name req) \<noteq> []"
    and "final_matches lower req s = (key, d) # others"
    and "find_city_score lower req s = Inr res"
  shows "\<exists>sc. stage_score d = Inr sc \<and> internshipScore res = round1_float sc
           \<and> recommendation res = fst (classify sc)
           \<and> recommendationLevel res = snd (classify sc)"
proof -
  have "(case score_record d of Inl e \<Rightarrow> Inl (Uncaught e) | Inr r \<Rightarrow> Inr r) = Inr res"
    using find_city_score_selected[OF assms(1,2)] assms(3) by simp
  then have "score_record d = Inr res"
    by (simp split: sum.splits)
  then show ?thesis by (rule score_record_InrD)
qed

lemma find_city_score_present:
  assumes "get_str (req_city_name req) \<noteq> []"
    and "final_matches lower req s = (key, d) # others"
    and "stage_score d = Inr sc"
    and "displayed_scores d = Inr shown"
  shows "find_city_score lower req s =
           Inr \<lparr>found = True, res_city = city d, res_country = country d,
            res_scores = shown, internshipScore = round1_float sc,
            recommendation = fst (classify sc),
            recommendationLevel = snd (classify sc)\<rparr>"
  using find_city_score_selected[OF assms(1,2)] score_record_Inr[OF assms(3,4)] by simp

lemmas rd_evals =
  rd_eval_1 rd_eval_2 rd_eval_3 rd_eval_4 rd_eval_5 rd_eval_6 rd_eval_7 rd_eval_8 rd_eval_9
  rd_eval_10 rd_eval_11 rd_eval_12 rd_eval_13 rd_eval_14 rd_eval_15 rd_eval_16 rd_eval_17
  rd_eval_18 rd_eval_19 rd_eval_20 rd_eval_21 rd_eval_22 rd_eval_23 rd_eval_24 rd_eval_25
  rd_eval_26 rd_eval_27 rd_eval_28 rd_eval_29 rd_eval_30 rd_eval_31 rd_eval_32 rd_eval_33
  rd_eval_34 rd_eval_35 rd_eval_36 rd_eval_37 rd_eval_38 rd_eval_39 rd_eval_40 rd_eval_41
  rd_eval_42 rd_eval_43 rd_eval_44 rd_eval_45 rd_eval_46 rd_eval_47 rd_eval_48 rd_eval_49
  rd_eval_50 rd_eval_51 rd_eval_52 rd_eval_53 rd_eval_54 rd_eval_55 rd_eval_56 rd_eval_57
  rd_eval_58 rd_eval_59 rd_eval_60 rd_eval_61 rd_eval_62 rd_eval_63 rd_eval_64 rd_eval_65
  rd_eval_66 rd_eval_67 rd_eval_68 rd_eval_69 rd_eval_70 rd_eval_71 rd_eval_72 rd_eval_73
  rd_eval_74 rd_eval_75 rd_eval_76

lemmas c_values = c025_value c020_value c015_value c010_value c005_value

lemma berlin_formula:
  "weighted_formula (Fin 180) (Fin 85) (Fin 70) (Fin 40) (Fin 80) (Fin 70) (Fin 65)
     = Num (Fin (387 / 4))"
  by (simp add: weighted_formula_def c_values rd_evals)

lemma berlin_rounded: "round1_float (Num (Fin (387 / 4))) = Num (rd (968 / 10))"
  by (simp add: round1_float_def round1_fl_def round_half_even_def)

lemma berlin_class: "classify (Num (Fin (387 / 4))) = (Choix_correct, average)"
  by (simp add: classify_def float_ge_int_def fl_rank_def)

lemma munich_formula:
  "weighted_formula (Fin 190) (Fin 80) (Fin 75) (Fin 30) (Fin 78) (Fin 75) (Fin 60)
     = Num (Fin (6864470994531123 / 70368744177664))"
  by (simp add: weighted_formula_def c_values rd_evals)

lemma munich_rounded:
  "round1_float (Num (Fin (6864470994531123 / 70368744177664))) = Num (rd (975 / 10))"
  by (simp add: round1_float_def round1_fl_def round_half_even_def)

lemma to_float_small:
  "to_float (PyInt 180) = Inr (Fin 180)"
  "to_float (PyInt 85) = Inr (Fin 85)"
  "to_float (PyInt 70) = Inr (Fin 70)"
  "to_float (PyInt 40) = Inr (Fin 40)"
  "to_float (PyInt 80) = Inr (Fin 80)"
  "to_float (PyInt 65) = Inr (Fin 65)"
  "to_float (PyInt 190) = Inr (Fin 190)"
  "to_float (PyInt 75) = Inr (Fin 75)"
  "to_float (PyInt 30) = Inr (Fin 30)"
  "to_float (PyInt 78) = Inr (Fin 78)"
  "to_float (PyInt 60) = Inr (Fin 60)"
  by (simp_all add: to_float_def rd_evals)

text \<open>
  Claim C1, as amended. When the record selected by \<open>find_city_score\<close> carries all nine
  sub-indices and each of the seven values that enter the score converts to a float (an
  \<open>int\<close> too large for a float does not), the handler succeeds, the composite score is
  \<open>0.25 * qualityOfLifeIndex + 0.20 * safetyIndex + 0.15 * purchasingPowerIndex
  + 0.15 * (100 - costOfLivingIndex) + 0.10 * healthCareIndex + 0.10 * (100 - pollutionIndex)
  + 0.05 * climateIndex\<close> evaluated in binary64 floating point from left to right, and
  \<open>internshipScore\<close> is this value rounded to one decimal place: the float nearest to a
  multiple of one tenth that lies within one twentieth of the score. For the indices 180,
  85, 70, 60, 80, 30, 65 the composite is exactly 96.75, it is returned as the float 96.8,
  and the tier is \<open>average\<close> ("Choix correct").
\<close>

theorem find_city_score_formula:
  assumes "get_str (req_city_name req) \<noteq> []"
    and "final_matches lower req s = (key, d) # others"
    and "index d ''qualityOfLifeIndex'' = Some q"
    and "index d ''safetyIndex'' = Some sf"
    and "index d ''purchasingPowerIndex'' = Some pp"
    and "index d ''costOfLivingIndex'' = Some col"
    and "index d ''healthCareIndex'' = Some hc"
    and "index d ''pollutionIndex'' = Some pol"
    and "index d ''climateIndex'' = Some cl"
    and "index d ''propertyPriceToIncomeRatio'' = Some ppi"
    and "index d ''trafficCommuteTimeIndex'' = Some tct"
    and "to_float q = Inr fq"
    and "to_float sf = Inr fsf"
    and "to_float pp = Inr fpp"
    and "to_float (hundred_minus col) = Inr fcol"
    and "to_float hc = Inr fhc"
    and "to_float (hundred_minus pol) = Inr fpol"
    and "to_float cl = Inr fcl"
  shows "\<exists>res. find_city_score lower req s = Inr res
           \<and> stage_score d = Inr (weighted_formula fq fsf fpp fcol fhc fpol fcl)
           \<and> internshipScore res
               = round1_float (weighted_formula fq fsf fpp fcol fhc fpol fcl)
           \<and> (\<forall>x. weighted_formula fq fsf fpp fcol fhc fpol fcl = Num (Fin x) \<longrightarrow>
                 (\<exists>k. internshipScore res = Num (rd (of_int k / 10))
                      \<and> \<bar>of_int k / 10 - x\<bar> \<le> 1 / 20))
           \<and> (q = PyInt 180 \<and> sf = PyInt 85 \<and> pp = PyInt 70 \<and> col = PyInt 60
                \<and> hc = PyInt 80 \<and> pol = PyInt 30 \<and> cl = PyInt 65 \<longrightarrow>
                stage_score d = Inr (Num (Fin (9675 / 100)))
                \<and> internshipScore res = Num (rd (968 / 10))
                \<and> recommendationLevel res = average
                \<and> recommendation res = Choix_correct)"
proof -
  define sc where "sc = weighted_formula fq fsf fpp fcol fhc fpol fcl"
  have st: "stage_score d = Inr sc"
    unfolding sc_def by (rule stage_score_present[OF assms(3-9) assms(12-18)])
  obtain shown where sh: "displayed_scores d = Inr shown"
    using displayed_scores_present[OF assms(3-11)] by blast
  define res where "res = \<lparr>found = True, res_city = city d, res_country = country d,
            res_scores = shown, internshipScore = round1_float sc,
            recommendation = fst (classify sc),
            recommendationLevel = snd (classify sc)\<rparr>"
  have fc: "find_city_score lower req s = Inr res"
    unfolding res_def by (rule find_city_score_present[OF assms(1,2) st sh])
  have sel: "internshipScore res = round1_float sc"
    "recommendationLevel res = snd (classify sc)"
    "recommendation res = fst (classify sc)"
    by (simp_all add: res_def)
  have near: "\<exists>k. internshipScore res = Num (rd (of_int k / 10))
                      \<and> \<bar>of_int k / 10 - x\<bar> \<le> 1 / 20" if "sc = Num (Fin x)" for x
    using round1_float_near[of x] sel(1) that by simp
  have berlin: "stage_score d = Inr (Num (Fin (9675 / 100)))
                \<and> internshipScore res = Num (rd (968 / 10))
                \<and> recommendationLevel res = average
                \<and> recommendation res = Choix_correct"
    if h: "q = PyInt 180 \<and> sf = PyInt 85 \<and> pp = PyInt 70 \<and> col = PyInt 60
                \<and> hc = PyInt 80 \<and> pol = PyInt 30 \<and> cl = PyInt 65"
  proof -
    have f: "fq = Fin 180" "fsf = Fin 85" "fpp = Fin 70" "fcol = Fin 40" "fhc = Fin 80"
      "fpol = Fin 70" "fcl = Fin 65"
      using assms(12-18) h by (simp_all add: to_float_small hundred_minus_def)
    have v: "sc = Num (Fin (387 / 4))"
      unfolding sc_def f by (rule berlin_formula)
    show ?thesis
      using st sel by (simp add: v berlin_rounded berlin_class)
  qed
  have "find_city_score lower req s = Inr res \<and> stage_score d = Inr sc
          \<and> internshipScore res = round1_float sc
          \<and> (\<forall>x. sc = Num (Fin x) \<longrightarrow>
                 (\<exists>k. internshipScore res = Num (rd (of_int k / 10))
                      \<and> \<bar>of_int k / 10 - x\<bar> \<le> 1 / 20))
          \<and> (q = PyInt 180 \<and> sf = PyInt 85 \<and> pp = PyInt 70 \<and> col = PyInt 60
                \<and> hc = PyInt 80 \<and> pol = PyInt 30 \<and> cl = PyInt 65 \<longrightarrow>
                stage_score d = Inr (Num (Fin (9675 / 100)))
                \<and> internshipScore res = Num (rd (968 / 10))
                \<and> recommendationLevel res = average
                \<and> recommendation res = Choix_correct)"
    using fc st sel(1) near berlin by blast
  then show ?thesis
    unfolding sc_def by (rule exI)
qed

lemma lower_Berlin: "ascii_lower ''Berlin'' = ''berlin''"
  by code_simp

lemma lower_Germany: "ascii_lower ''Germany'' = ''germany''"
  by code_simp

lemma lower_Munich: "ascii_lower ''Munich'' = ''munich''"
  by code_simp

lemma lower_munich: "ascii_lower ''munich'' = ''munich''"
  by code_simp

lemma lower_tier: "ascii_lower ''tier'' = ''tier''"
  by code_simp

lemma lower_Tierville: "ascii_lower ''Tierville'' = ''tierville''"
  by code_simp

lemma lower_Paris: "ascii_lower ''Paris'' = ''paris''"
  by code_simp


lemma startup_germany: "startup germany_source = germany_state"
  by (simp add: startup_def germany_source_def germany_state_def berlin_record_def
      berlin_obj_def empty_state_def city_key_def)

lemma two_cities_state_eq:
  "two_cities_state =
     \<lparr>CITIES_DATA = [(''Berlin, Germany'', berlin_record),
                     (''Munich, Germany'', munich_record)],
      COUNTRIES = [(''Germany'', [''Berlin'', ''Munich''])]\<rparr>"
  by (simp add: two_cities_state_def startup_def empty_state_def berlin_obj_def
      munich_obj_def city_key_def berlin_record_def munich_record_def)

lemma final_matches_berlin:
  "final_matches ascii_lower berlin_request germany_state
     = [(''Berlin, Germany'', berlin_record)]"
  by (simp add: final_matches_def berlin_request_def germany_state_def get_str_def
      search_city_def filter_country_def berlin_record_def make_record_def berlin_obj_def
      lower_Berlin lower_Germany)

lemma final_matches_munich:
  "final_matches ascii_lower munich_request two_cities_state
     = [(''Munich, Germany'', munich_record)]"
  by (simp add: two_cities_state_eq final_matches_def munich_request_def get_str_def
      search_city_def berlin_record_def munich_record_def make_record_def berlin_obj_def
      munich_obj_def lower_Berlin lower_Munich lower_munich sublist_Cons_right)

lemma berlin_record_index:
  "index berlin_record ''qualityOfLifeIndex'' = Some (PyInt 180)"
  "index berlin_record ''safetyIndex'' = Some (PyInt 85)"
  "index berlin_record ''purchasingPowerIndex'' = Some (PyInt 70)"
  "index berlin_record ''costOfLivingIndex'' = Some (PyInt 60)"
  "index berlin_record ''healthCareIndex'' = Some (PyInt 80)"
  "index berlin_record ''pollutionIndex'' = Some (PyInt 30)"
  "index berlin_record ''climateIndex'' = Some (PyInt 65)"
  "index berlin_record ''propertyPriceToIncomeRatio'' = Some (PyFloat (Fin (19 / 2)))"
  "index berlin_record ''trafficCommuteTimeIndex'' = Some (PyFloat (Fin (129 / 4)))"
  by (simp_all add: berlin_record_def make_record_def berlin_obj_def)

lemma munich_record_index:
  "index munich_record ''qualityOfLifeIndex'' = Some (PyInt 190)"
  "index munich_record ''safetyIndex'' = Some (PyInt 80)"
  "index munich_record ''purchasingPowerIndex'' = Some (PyInt 75)"
  "index munich_record ''costOfLivingIndex'' = Some (PyInt 70)"
  "index munich_record ''healthCareIndex'' = Some (PyInt 78)"
  "index munich_record ''pollutionIndex'' = Some (PyInt 25)"
  "index munich_record ''climateIndex'' = Some (PyInt 60)"
  "index munich_record ''propertyPriceToIncomeRatio'' = Some (PyInt 12)"
  "index munich_record ''trafficCommuteTimeIndex'' = Some (PyInt 30)"
  by (simp_all add: munich_record_def make_record_def munich_obj_def)

lemma hundred_minus_small:
  "hundred_minus (PyInt 60) = PyInt 40"
  "hundred_minus (PyInt 30) = PyInt 70"
  "hundred_minus (PyInt 70) = PyInt 30"
  "hundred_minus (PyInt 25) = PyInt 75"
  by (simp_all add: hundred_minus_def)

text \<open>
  The end-to-end example, Berlin, loaded from the one-country dataset and queried; and
  Munich, whose float score 97.54999999999999 is returned as 97.5, where the exact sum
  97.55 would give 97.6.
\<close>

theorem find_city_score_formula_witness:
  "(\<exists>res. find_city_score ascii_lower berlin_request (startup germany_source) = Inr res
         \<and> stage_score berlin_record = Inr (Num (Fin (9675 / 100)))
         \<and> internshipScore res = Num (rd (968 / 10))
         \<and> recommendationLevel res = average \<and> recommendation res = Choix_correct)
   \<and> (\<exists>res. find_city_score ascii_lower munich_request two_cities_state = Inr res
         \<and> stage_score munich_record
             = Inr (Num (Fin (6864470994531123 / 70368744177664)))
         \<and> internshipScore res = Num (rd (975 / 10)))"
proof
  have n: "get_str (req_city_name berlin_request) \<noteq> []"
    by (simp add: berlin_request_def get_str_def)
  have c: "to_float (hundred_minus (PyInt 60)) = Inr (Fin 40)"
    "to_float (hundred_minus (PyInt 30)) = Inr (Fin 70)"
    by (simp_all add: hundred_minus_small to_float_small)
  from find_city_score_formula[OF n final_matches_berlin berlin_record_index
      to_float_small(1) to_float_small(2) to_float_small(3) c(1) to_float_small(5) c(2)
      to_float_small(6)]
  show "\<exists>res. find_city_score ascii_lower berlin_request (startup germany_source) = Inr res
         \<and> stage_score berlin_record = Inr (Num (Fin (9675 / 100)))
         \<and> internshipScore res = Num (rd (968 / 10))
         \<and> recommendationLevel res = average \<and> recommendation res = Choix_correct"
    unfolding startup_germany by blast
next
  have n: "get_str (req_city_name munich_request) \<noteq> []"
    by (simp add: munich_request_def get_str_def)
  have c: "to_float (hundred_minus (PyInt 70)) = Inr (Fin 30)"
    "to_float (hundred_minus (PyInt 25)) = Inr (Fin 75)"
    by (simp_all add: hundred_minus_small to_float_small)
  from find_city_score_formula[OF n final_matches_munich munich_record_index
      to_float_small(7) to_float_small(5) to_float_small(8) c(1) to_float_small(10) c(2)
      to_float_small(11)]
  show "\<exists>res. find_city_score ascii_lower munich_request two_cities_state = Inr res
         \<and> stage_score munich_record
             = Inr (Num (Fin (6864470994531123 / 70368744177664)))
         \<and> internshipScore res = Num (rd (975 / 10))"
    unfolding munich_formula munich_rounded by blast
qed

lemma rd_zero: "rd 0 = Fin 0"
  by (simp add: rd_def)

lemma final_matches_probe:
  "final_matches ascii_lower probe_request (probe_state obj)
     = [(''Tierville, Testland'', probe_record obj)]"
  by (simp add: final_matches_def probe_request_def probe_state_def get_str_def
      search_city_def probe_record_def make_record_def lower_tier lower_Tierville
      sublist_Cons_right)

lemma probe_request_name: "get_str (req_city_name probe_request) \<noteq> []"
  by (simp add: probe_request_def get_str_def)

lemma probe_record_index:
  "index (probe_record (probe_obj q sf pp col hc pol cl)) ''qualityOfLifeIndex''
     = Some (PyInt q)"
  "index (probe_record (probe_obj q sf pp col hc pol cl)) ''safetyIndex'' = Some (PyInt sf)"
  "index (probe_record (probe_obj q sf pp col hc pol cl)) ''purchasingPowerIndex''
     = Some (PyInt pp)"
  "index (probe_record (probe_obj q sf pp col hc pol cl)) ''costOfLivingIndex''
     = Some (PyInt col)"
  "index (probe_record (probe_obj q sf pp col hc pol cl)) ''healthCareIndex''
     = Some (PyInt hc)"
  "index (probe_record (probe_obj q sf pp col hc pol cl)) ''pollutionIndex''
     = Some (PyInt pol)"
  "index (probe_record (probe_obj q sf pp col hc pol cl)) ''climateIndex'' = Some (PyInt cl)"
  "index (probe_record (probe_obj q sf pp col hc pol cl)) ''propertyPriceToIncomeRatio''
     = Some (PyInt 1)"
  "index (probe_record (probe_obj q sf pp col hc pol cl)) ''trafficCommuteTimeIndex''
     = Some (PyInt 1)"
  by (simp_all add: probe_record_def make_record_def probe_obj_def)

lemma probe_displayed:
  "displayed_scores (probe_record (probe_obj q sf pp col hc pol cl)) =
     Inr \<lparr>qualityOfLife = PyInt q, purchasingPower = PyInt pp, safety = PyInt sf,
          healthCare = PyInt hc, costOfLiving = PyInt col, propertyPriceToIncome = PyInt 1,
          trafficCommuteTime = PyInt 1, pollution = PyInt pol, climate = PyInt cl\<rparr>"
  using displayed_scores_present[OF probe_record_index, of q sf pp col hc pol cl]
  by (simp add: py_round1_def)

lemma stage_score_exact120: "stage_score (probe_record exact120_obj) = Inr (Num (Fin 120))"
  by (simp add: exact120_obj_def stage_score_def lookup_def probe_record_index times_def
      to_float_def hundred_minus_def c_values rd_evals rd_zero)

lemma stage_score_edge120:
  "stage_score (probe_record edge120_obj)
     = Inr (Num (Fin (8444249301319679 / 70368744177664)))"
  by (simp add: edge120_obj_def stage_score_def lookup_def probe_record_index times_def
      to_float_def hundred_minus_def c_values rd_evals rd_zero)

lemma stage_score_huge: "stage_score (probe_record huge_obj) = Inl OverflowError"
  by (simp add: huge_obj_def stage_score_def lookup_def probe_record_index times_def
      to_float_def rd_evals rd_zero)

text \<open>
  Claim C1 as stated fails: a record may carry all nine sub-indices and still not be scored.
  JSON integers are Python \<open>int\<close>s of any size, and \<open>2 ^ 1024 * 0.25\<close> raises
  \<open>OverflowError\<close>, which no handler catches.
\<close>

theorem find_city_score_overflow_counterexample:
  "index (probe_record huge_obj) ''qualityOfLifeIndex'' = Some (PyInt (2 ^ 1024))
   \<and> index (probe_record huge_obj) ''safetyIndex'' = Some (PyInt 0)
   \<and> index (probe_record huge_obj) ''purchasingPowerIndex'' = Some (PyInt 0)
   \<and> index (probe_record huge_obj) ''costOfLivingIndex'' = Some (PyInt 0)
   \<and> index (probe_record huge_obj) ''healthCareIndex'' = Some (PyInt 0)
   \<and> index (probe_record huge_obj) ''pollutionIndex'' = Some (PyInt 0)
   \<and> index (probe_record huge_obj) ''climateIndex'' = Some (PyInt 0)
   \<and> index (probe_record huge_obj) ''propertyPriceToIncomeRatio'' = Some (PyInt 1)
   \<and> index (probe_record huge_obj) ''trafficCommuteTimeIndex'' = Some (PyInt 1)
   \<and> CITIES_DATA (probe_state huge_obj) = [(''Tierville, Testland'', probe_record huge_obj)]
   \<and> find_city_score ascii_lower probe_request (probe_state huge_obj)
       = Inl (Uncaught OverflowError)"
proof -
  have "score_record (probe_record huge_obj) = Inl OverflowError"
    by (simp add: score_record_def stage_score_huge)
  then have b: "find_city_score ascii_lower probe_request (probe_state huge_obj)
       = Inl (Uncaught OverflowError)"
    using find_city_score_selected[OF probe_request_name final_matches_probe, of huge_obj]
    by simp
  have c: "CITIES_DATA (probe_state huge_obj)
             = [(''Tierville, Testland'', probe_record huge_obj)]"
    by (simp add: probe_state_def)
  from b c show ?thesis
    by (simp add: probe_record_index[of "2 ^ 1024" 0 0 0 0 0 0, folded huge_obj_def])
qed

text \<open>
  Claim C2. For every scored record the tier is decided by the unrounded composite score,
  the float that lines 120 to 128 compute, with boundaries closed below: at least 120
  gives \<open>excellent\<close>, from 100 up to but not including 120 gives \<open>good\<close>, from 80 up to
  but not including 100 gives \<open>average\<close>, and below 80 gives \<open>poor\<close>; exactly 120.0, 100.0
  and 80.0 give \<open>excellent\<close>, \<open>good\<close> and \<open>average\<close>.
\<close>

theorem recommendation_tier_thresholds:
  assumes "get_str (req_city_name req) \<noteq> []"
    and "final_matches lower req s = (key, d) # others"
    and "find_city_score lower req s = Inr res"
  shows "\<exists>sc. stage_score d = Inr sc
           \<and> (float_ge_int sc 120 \<longrightarrow>
                recommendationLevel res = excellent \<and> recommendation res = Excellent_choix)
           \<and> (float_ge_int sc 100 \<and> float_lt_int sc 120 \<longrightarrow>
                recommendationLevel res = good \<and> recommendation res = Bon_choix)
           \<and> (float_ge_int sc 80 \<and> float_lt_int sc 100 \<longrightarrow>
                recommendationLevel res = average \<and> recommendation res = Choix_correct)
           \<and> (float_lt_int sc 80 \<longrightarrow>
                recommendationLevel res = poor
                \<and> recommendation res = A_considerer_avec_precaution)
           \<and> (sc = Num (Fin 120) \<longrightarrow> recommendationLevel res = excellent)
           \<and> (sc = Num (Fin 100) \<longrightarrow> recommendationLevel res = good)
           \<and> (sc = Num (Fin 80) \<longrightarrow> recommendationLevel res = average)"
proof -
  obtain sc where sc: "stage_score d = Inr sc"
    and r: "recommendation res = fst (classify sc)"
    and l: "recommendationLevel res = snd (classify sc)"
    using find_city_score_InrD[OF assms] by blast
  have lt_ge: "\<not> float_ge_int sc n" if "float_lt_int sc n" for n
    using that by (cases sc) (auto simp: float_lt_int_def float_ge_int_def)
  have mono: "float_ge_int sc m" if "float_ge_int sc n" "m \<le> n" for m n
  proof (cases sc)
    case NaN
    with that show ?thesis by (simp add: float_ge_int_def)
  next
    case (Num f)
    have le: "(0 :: int, of_int m :: real) \<le> (0, of_int n)"
      using that(2) by simp
    from that(1) have "(0 :: int, of_int n :: real) \<le> fl_rank f"
      by (simp add: Num float_ge_int_def)
    with le have "(0 :: int, of_int m :: real) \<le> fl_rank f"
      by (rule order_trans)
    then show ?thesis
      by (simp add: Num float_ge_int_def)
  qed
  have a: "float_ge_int sc 120 \<longrightarrow>
                recommendationLevel res = excellent \<and> recommendation res = Excellent_choix"
    using r l by (simp add: classify_def)
  have b: "float_ge_int sc 100 \<and> float_lt_int sc 120 \<longrightarrow>
                recommendationLevel res = good \<and> recommendation res = Bon_choix"
    using r l lt_ge[of 120] by (auto simp: classify_def)
  have c: "float_ge_int sc 80 \<and> float_lt_int sc 100 \<longrightarrow>
                recommendationLevel res = average \<and> recommendation res = Choix_correct"
    using r l lt_ge[of 100] mono[of 120 100] by (auto simp: classify_def)
  have d: "float_lt_int sc 80 \<longrightarrow>
                recommendationLevel res = poor
                \<and> recommendation res = A_considerer_avec_precaution"
    using r l lt_ge[of 80] mono[of 120 80] mono[of 100 80] by (auto simp: classify_def)
  have e: "sc = Num (Fin 120) \<longrightarrow> recommendationLevel res = excellent"
    using l by (simp add: classify_def float_ge_int_def fl_rank_def)
  have f: "sc = Num (Fin 100) \<longrightarrow> recommendationLevel res = good"
    using l by (simp add: classify_def float_ge_int_def fl_rank_def)
  have g: "sc = Num (Fin 80) \<longrightarrow> recommendationLevel res = average"
    using l by (simp add: classify_def float_ge_int_def fl_rank_def)
  from sc a b c d e f g show ?thesis by blast
qed

lemma find_city_score_probe:
  assumes "stage_score (probe_record (probe_obj q sf pp col hc pol cl)) = Inr sc"
  shows "find_city_score ascii_lower probe_request (probe_state (probe_obj q sf pp col hc pol cl))
     = Inr \<lparr>found = True, res_city = ''Tierville'', res_country = ''Testland'',
            res_scores =
              \<lparr>qualityOfLife = PyInt q, purchasingPower = PyInt pp, safety = PyInt sf,
               healthCare = PyInt hc, costOfLiving = PyInt col,
               propertyPriceToIncome = PyInt 1, trafficCommuteTime = PyInt 1,
               pollution = PyInt pol, climate = PyInt cl\<rparr>,
            internshipScore = round1_float sc,
            recommendation = fst (classify sc),
            recommendationLevel = snd (classify sc)\<rparr>"
proof -
  have f: "city (probe_record (probe_obj q sf pp col hc pol cl)) = ''Tierville''"
    "country (probe_record (probe_obj q sf pp col hc pol cl)) = ''Testland''"
    by (simp_all add: probe_record_def make_record_def probe_obj_def)
  show ?thesis
    using find_city_score_present[OF probe_request_name final_matches_probe assms
        probe_displayed]
    by (simp add: f)
qed

text \<open>
  A score of exactly 120.0 is \<open>excellent\<close>. The record 208, 74, 159, 58, 96, 15, 99, whose
  exact weighted sum is 120, has the float score 119.99999999999999: it is \<open>good\<close>, and it
  is displayed as 120.0, so the tier is taken from the unrounded float.
\<close>

theorem recommendation_tier_thresholds_witness:
  "stage_score (probe_record exact120_obj) = Inr (Num (Fin 120))
   \<and> recommendationLevel
        (projr (find_city_score ascii_lower probe_request (probe_state exact120_obj)))
       = excellent
   \<and> stage_score (probe_record edge120_obj)
       = Inr (Num (Fin (8444249301319679 / 70368744177664)))
   \<and> recommendationLevel
        (projr (find_city_score ascii_lower probe_request (probe_state edge120_obj)))
       = good
   \<and> internshipScore
        (projr (find_city_score ascii_lower probe_request (probe_state edge120_obj)))
       = Num (Fin 120)"
proof -
  have fa: "find_city_score ascii_lower probe_request (probe_state exact120_obj)
              = Inr (projr (find_city_score ascii_lower probe_request
                              (probe_state exact120_obj)))"
    using find_city_score_probe[OF stage_score_exact120[unfolded exact120_obj_def]]
    by (simp add: exact120_obj_def)
  have fb: "find_city_score ascii_lower probe_request (probe_state edge120_obj)
              = Inr (projr (find_city_score ascii_lower probe_request
                              (probe_state edge120_obj)))"
    using find_city_score_probe[OF stage_score_edge120[unfolded edge120_obj_def]]
    by (simp add: edge120_obj_def)
  have a: "recommendationLevel
        (projr (find_city_score ascii_lower probe_request (probe_state exact120_obj)))
       = excellent"
    using recommendation_tier_thresholds[OF probe_request_name final_matches_probe fa]
    by (simp add: stage_score_exact120)
  have b: "recommendationLevel
        (projr (find_city_score ascii_lower probe_request (probe_state edge120_obj)))
       = good"
    using recommendation_tier_thresholds[OF probe_request_name final_matches_probe fb]
    by (simp add: stage_score_edge120 float_ge_int_def float_lt_int_def fl_rank_def)
  have c: "internshipScore
        (projr (find_city_score ascii_lower probe_request (probe_state edge120_obj)))
       = Num (Fin 120)"
    using find_city_score_probe[OF stage_score_edge120[unfolded edge120_obj_def]]
    by (simp add: edge120_obj_def round1_float_def round1_fl_def round_half_even_def
        rd_evals)
  from stage_score_exact120 a stage_score_edge120 b c show ?thesis by blast
qed

lemma search_city_empty_iff:
  "search_city lower n s = [] \<longleftrightarrow>
     (\<forall>(key, d) \<in> set (CITIES_DATA s). \<not> sublist (lower n) (lower (city d)))"
  by (auto simp: search_city_def filter_empty_conv)

text \<open>
  Claim C5. \<open>find_city_score\<close> checks its error conditions in a fixed order: an empty
  \<open>city_name\<close> is answered with status 400 whatever the catalog holds (also when it is
  empty); otherwise an empty catalog is answered with status 500; otherwise, when no
  record's city contains \<open>city_name\<close> case-insensitively, the answer is status 404.
  Case-insensitively means: after \<open>str.lower\<close> on both sides; the statement holds for
  every function \<open>lower\<close>, so for the interpreter's.
\<close>

theorem find_city_score_error_order:
  "(get_str (req_city_name req) = [] \<longrightarrow>
      find_city_score lower req s = Inl City_name_requis
      \<and> status_code City_name_requis = 400)
   \<and> (get_str (req_city_name req) \<noteq> [] \<and> CITIES_DATA s = [] \<longrightarrow>
      find_city_score lower req s = Inl Aucune_donnee_chargee
      \<and> status_code Aucune_donnee_chargee = 500)
   \<and> (get_str (req_city_name req) \<noteq> [] \<and> CITIES_DATA s \<noteq> [] \<and>
       (\<forall>(key, d) \<in> set (CITIES_DATA s).
           \<not> sublist (lower (get_str (req_city_name req))) (lower (city d))) \<longrightarrow>
      find_city_score lower req s = Inl (Ville_non_trouvee (get_str (req_city_name req)))
      \<and> status_code (Ville_non_trouvee (get_str (req_city_name req))) = 404)"
proof (intro conjI impI)
  assume "get_str (req_city_name req) = []"
  then show "find_city_score lower req s = Inl City_name_requis"
    by (simp add: find_city_score_def)
next
  assume "get_str (req_city_name req) \<noteq> [] \<and> CITIES_DATA s = []"
  then show "find_city_score lower req s = Inl Aucune_donnee_chargee"
    by (simp add: find_city_score_def)
next
  assume h: "get_str (req_city_name req) \<noteq> [] \<and> CITIES_DATA s \<noteq> [] \<and>
       (\<forall>(key, d) \<in> set (CITIES_DATA s).
           \<not> sublist (lower (get_str (req_city_name req))) (lower (city d)))"
  then have "search_city lower (get_str (req_city_name req)) s = []"
    by (simp add: search_city_empty_iff)
  with h show "find_city_score lower req s
                 = Inl (Ville_non_trouvee (get_str (req_city_name req)))"
    by (simp add: find_city_score_def Let_def)
qed simp_all

text \<open>
  The three cases at concrete requests, on the empty catalog and on the Germany catalog,
  with the lower-casing of the ASCII letters.
\<close>

theorem find_city_score_error_order_witness:
  "find_city_score ascii_lower \<lparr>req_city_name = None, req_country = Some ''Germany''\<rparr>
     empty_state = Inl City_name_requis
   \<and> find_city_score ascii_lower \<lparr>req_city_name = Some '''', req_country = None\<rparr>
       germany_state = Inl City_name_requis
   \<and> find_city_score ascii_lower \<lparr>req_city_name = Some ''Paris'', req_country = None\<rparr>
       empty_state = Inl Aucune_donnee_chargee
   \<and> find_city_score ascii_lower \<lparr>req_city_name = Some ''Paris'', req_country = None\<rparr>
       germany_state = Inl (Ville_non_trouvee ''Paris'')"
proof -
  have a: "find_city_score ascii_lower
             \<lparr>req_city_name = None, req_country = Some ''Germany''\<rparr> empty_state
           = Inl City_name_requis"
    using find_city_score_error_order
      [of "\<lparr>req_city_name = None, req_country = Some ''Germany''\<rparr>" ascii_lower
        empty_state]
    by (simp add: get_str_def)
  have b: "find_city_score ascii_lower
             \<lparr>req_city_name = Some '''', req_country = None\<rparr> germany_state
           = Inl City_name_requis"
    using find_city_score_error_order
      [of "\<lparr>req_city_name = Some '''', req_country = None\<rparr>" ascii_lower germany_state]
    by (simp add: get_str_def)
  have c: "find_city_score ascii_lower
             \<lparr>req_city_name = Some ''Paris'', req_country = None\<rparr> empty_state
           = Inl Aucune_donnee_chargee"
    using find_city_score_error_order
      [of "\<lparr>req_city_name = Some ''Paris'', req_country = None\<rparr>" ascii_lower empty_state]
    by (simp add: get_str_def empty_state_def)
  have d: "find_city_score ascii_lower
             \<lparr>req_city_name = Some ''Paris'', req_country = None\<rparr> germany_state
           = Inl (Ville_non_trouvee ''Paris'')"
    using find_city_score_error_order
      [of "\<lparr>req_city_name = Some ''Paris'', req_country = None\<rparr>" ascii_lower
        germany_state]
    by (simp add: get_str_def germany_state_def berlin_record_def make_record_def
        berlin_obj_def lower_Paris lower_Berlin sublist_Cons_right)
  from a b c d show ?thesis by simp
qed

lemma stage_score_cong:
  assumes "index d1 ''qualityOfLifeIndex'' = index d2 ''qualityOfLifeIndex''"
    and "index d1 ''safetyIndex'' = index d2 ''safetyIndex''"
    and "index d1 ''purchasingPowerIndex'' = index d2 ''purchasingPowerIndex''"
    and "index d1 ''costOfLivingIndex'' = index d2 ''costOfLivingIndex''"
    and "index d1 ''healthCareIndex'' = index d2 ''healthCareIndex''"
    and "index d1 ''pollutionIndex'' = index d2 ''pollutionIndex''"
    and "index d1 ''climateIndex'' = index d2 ''climateIndex''"
  shows "stage_score d1 = stage_score d2"
  using assms by (simp add: stage_score_def lookup_def)

text \<open>
  Claim C10. The score and the tier depend on seven of the nine sub-indices only: when the
  records selected by two calls agree on \<open>qualityOfLifeIndex\<close>, \<open>safetyIndex\<close>,
  \<open>purchasingPowerIndex\<close>, \<open>costOfLivingIndex\<close>, \<open>healthCareIndex\<close>, \<open>pollutionIndex\<close>
  and \<open>climateIndex\<close>, the two replies have the same \<open>internshipScore\<close>,
  \<open>recommendation\<close> and \<open>recommendationLevel\<close>, whatever \<open>propertyPriceToIncomeRatio\<close>
  and \<open>trafficCommuteTimeIndex\<close> are.
\<close>

theorem score_ignores_two_indices:
  assumes "get_str (req_city_name req1) \<noteq> []"
    and "final_matches lower req1 s1 = (k1, d1) # others1"
    and "get_str (req_city_name req2) \<noteq> []"
    and "final_matches lower req2 s2 = (k2, d2) # others2"
    and "index d1 ''qualityOfLifeIndex'' = index d2 ''qualityOfLifeIndex''"
    and "index d1 ''safetyIndex'' = index d2 ''safetyIndex''"
    and "index d1 ''purchasingPowerIndex'' = index d2 ''purchasingPowerIndex''"
    and "index d1 ''costOfLivingIndex'' = index d2 ''costOfLivingIndex''"
    and "index d1 ''healthCareIndex'' = index d2 ''healthCareIndex''"
    and "index d1 ''pollutionIndex'' = index d2 ''pollutionIndex''"
    and "index d1 ''climateIndex'' = index d2 ''climateIndex''"
    and "find_city_score lower req1 s1 = Inr r1"
    and "find_city_score lower req2 s2 = Inr r2"
  shows "internshipScore r1 = internshipScore r2
         \<and> recommendation r1 = recommendation r2
         \<and> recommendationLevel r1 = recommendationLevel r2"
proof -
  obtain sc1 where a: "stage_score d1 = Inr sc1" "internshipScore r1 = round1_float sc1"
    "recommendation r1 = fst (classify sc1)" "recommendationLevel r1 = snd (classify sc1)"
    using find_city_score_InrD[OF assms(1,2,12)] by blast
  obtain sc2 where b: "stage_score d2 = Inr sc2" "internshipScore r2 = round1_float sc2"
    "recommendation r2 = fst (classify sc2)" "recommendationLevel r2 = snd (classify sc2)"
    using find_city_score_InrD[OF assms(3,4,13)] by blast
  have "stage_score d1 = stage_score d2"
    using assms(5-11) by (rule stage_score_cong)
  then have "sc1 = sc2" using a(1) b(1) by simp
  then show ?thesis using a b by simp
qed

lemma variant_state_eq:
  "variant_state =
     \<lparr>CITIES_DATA = [(''Berlin, Germany'', make_record ''Berlin'' ''Germany'' berlin_variant)],
      COUNTRIES = [(''Germany'', [''Berlin''])]\<rparr>"
  by (simp add: variant_state_def startup_def empty_state_def berlin_variant_def
      berlin_obj_def city_key_def)

lemma final_matches_variant:
  "final_matches ascii_lower berlin_request variant_state =
     [(''Berlin, Germany'', make_record ''Berlin'' ''Germany'' berlin_variant)]"
  by (simp add: variant_state_eq final_matches_def berlin_request_def get_str_def
      search_city_def filter_country_def make_record_def berlin_variant_def berlin_obj_def
      lower_Berlin lower_Germany)

lemma berlin_variant_index:
  "index (make_record ''Berlin'' ''Germany'' berlin_variant) ''qualityOfLifeIndex''
     = Some (PyInt 180)"
  "index (make_record ''Berlin'' ''Germany'' berlin_variant) ''safetyIndex''
     = Some (PyInt 85)"
  "index (make_record ''Berlin'' ''Germany'' berlin_variant) ''purchasingPowerIndex''
     = Some (PyInt 70)"
  "index (make_record ''Berlin'' ''Germany'' berlin_variant) ''costOfLivingIndex''
     = Some (PyInt 60)"
  "index (make_record ''Berlin'' ''Germany'' berlin_variant) ''healthCareIndex''
     = Some (PyInt 80)"
  "index (make_record ''Berlin'' ''Germany'' berlin_variant) ''pollutionIndex''
     = Some (PyInt 30)"
  "index (make_record ''Berlin'' ''Germany'' berlin_variant) ''climateIndex''
     = Some (PyInt 65)"
  "index (make_record ''Berlin'' ''Germany'' berlin_variant) ''propertyPriceToIncomeRatio''
     = Some (PyInt 20)"
  "index (make_record ''Berlin'' ''Germany'' berlin_variant) ''trafficCommuteTimeIndex''
     = Some (PyInt 50)"
  by (simp_all add: make_record_def berlin_variant_def berlin_obj_def)

lemma stage_score_berlin: "stage_score berlin_record = Inr (Num (Fin (387 / 4)))"
  by (simp add: stage_score_def lookup_def berlin_record_index times_def to_float_def
      hundred_minus_def c_values rd_evals)

text \<open>
  Berlin and its variant: both are scored, with the same score and tier, and the displayed
  \<open>propertyPriceToIncome\<close> differs.
\<close>

theorem score_ignores_two_indices_witness:
  "\<exists>r1 r2. find_city_score ascii_lower berlin_request germany_state = Inr r1
     \<and> find_city_score ascii_lower berlin_request variant_state = Inr r2
     \<and> internshipScore r1 = internshipScore r2
     \<and> recommendation r1 = recommendation r2
     \<and> recommendationLevel r1 = recommendationLevel r2
     \<and> propertyPriceToIncome (res_scores r1) = PyFloat (Fin (19 / 2))
     \<and> propertyPriceToIncome (res_scores r2) = PyInt 20"
proof -
  have n: "get_str (req_city_name berlin_request) \<noteq> []"
    by (simp add: berlin_request_def get_str_def)
  have sv: "stage_score (make_record ''Berlin'' ''Germany'' berlin_variant)
              = Inr (Num (Fin (387 / 4)))"
    using stage_score_cong[of berlin_record "make_record ''Berlin'' ''Germany'' berlin_variant"]
    by (simp add: berlin_record_index berlin_variant_index stage_score_berlin)
  obtain r1 where r1: "find_city_score ascii_lower berlin_request germany_state = Inr r1"
    "propertyPriceToIncome (res_scores r1) = py_round1 (PyFloat (Fin (19 / 2)))"
    using find_city_score_present[OF n final_matches_berlin stage_score_berlin
        displayed_scores_present[OF berlin_record_index]]
    by simp
  obtain r2 where r2: "find_city_score ascii_lower berlin_request variant_state = Inr r2"
    "propertyPriceToIncome (res_scores r2) = py_round1 (PyInt 20)"
    using find_city_score_present[OF n final_matches_variant sv
        displayed_scores_present[OF berlin_variant_index]]
    by simp
  have same: "internshipScore r1 = internshipScore r2
         \<and> recommendation r1 = recommendation r2
         \<and> recommendationLevel r1 = recommendationLevel r2"
    by (rule score_ignores_two_indices[OF n final_matches_berlin n final_matches_variant
          _ _ _ _ _ _ _ r1(1) r2(1)])
      (simp_all add: berlin_record_index berlin_variant_index)
  have p1: "py_round1 (PyFloat (Fin (19 / 2))) = PyFloat (Fin (19 / 2))"
    by (simp add: py_round1_def round1_fl_def round_half_even_def rd_evals)
  have p2: "py_round1 (PyInt 20) = PyInt 20"
    by (simp add: py_round1_def)
  show ?thesis
    using r1 r2 same p1 p2 by auto
qed

section \<open>Properties of \<open>list_cities\<close>\<close>

lemma filter_cities_below:
  assumes "\<forall>(key, d) \<in> set xs.
             \<exists>q. index d ''qualityOfLifeIndex'' = Some q \<and> num_lt_float q mq"
  shows "filter_cities lower c mq mc xs = Inr []"
  using assms
proof (induction xs)
  case Nil
  then show ?case by simp
next
  case (Cons x xs)
  obtain key d where x: "x = (key, d)" by (cases x)
  from Cons.prems x obtain q where q: "index d ''qualityOfLifeIndex'' = Some q"
    "num_lt_float q mq"
    by auto
  have rest: "filter_cities lower c mq mc xs = Inr []"
    using Cons by simp
  show ?case
    using q rest by (simp add: x lookup_def)
qed

lemma slice_to_Nil: "slice_to limit [] = []"
  by (simp add: slice_to_def)

lemma sort_reverse_Nil: "sort_reverse f [] = []"
  by (simp add: sort_reverse_def)

text \<open>
  Claim C7, as amended. On a non-empty catalog in which every record has a
  \<open>qualityOfLifeIndex\<close> below 999, \<open>list_cities\<close> with \<open>min_quality=999\<close> returns
  \<open>total = 0\<close> and no city.
\<close>

theorem list_cities_min_quality_999:
  assumes "CITIES_DATA s \<noteq> []"
    and "\<forall>(key, d) \<in> set (CITIES_DATA s).
           \<exists>q. index d ''qualityOfLifeIndex'' = Some q \<and> num_lt_float q (Num (Fin 999))"
    and "arg_min_quality args = Some (Num (Fin 999))"
  shows "list_cities lower args s = Inr \<lparr>l_total = 0, l_cities = []\<rparr>"
proof -
  have "filter_cities lower c (Num (Fin 999)) mc (CITIES_DATA s) = Inr []" for c mc
    using assms(2) by (rule filter_cities_below)
  then show ?thesis
    using assms(1,3)
    by (simp add: list_cities_def get_or_def Let_def slice_to_Nil sort_reverse_Nil)
qed

text \<open>
  The Germany catalog satisfies the hypotheses.
\<close>

theorem list_cities_min_quality_999_witness:
  "list_cities ascii_lower min_quality_999 germany_state = Inr \<lparr>l_total = 0, l_cities = []\<rparr>"
proof (rule list_cities_min_quality_999)
  show "CITIES_DATA germany_state \<noteq> []"
    by (simp add: germany_state_def)
  show "\<forall>(key, d) \<in> set (CITIES_DATA germany_state).
           \<exists>q. index d ''qualityOfLifeIndex'' = Some q \<and> num_lt_float q (Num (Fin 999))"
    by (simp add: germany_state_def berlin_record_index num_lt_float_def num_rank_def
        fl_rank_def)
  show "arg_min_quality min_quality_999 = Some (Num (Fin 999))"
    by (simp add: min_quality_999_def)
qed

lemma utopia_state_eq:
  "utopia_state =
     \<lparr>CITIES_DATA = [(''Utopia, Nowhere'', make_record ''Utopia'' ''Nowhere'' utopia_obj)],
      COUNTRIES = [(''Nowhere'', [''Utopia''])]\<rparr>"
  by (simp add: utopia_state_def startup_def empty_state_def utopia_obj_def city_key_def)

text \<open>
  Claim C7 as stated fails: the indices are not bounded, and a catalog holding a city with
  \<open>qualityOfLifeIndex = 1000\<close> returns that city for \<open>min_quality=999\<close>.
\<close>

theorem list_cities_min_quality_999_counterexample:
  "CITIES_DATA utopia_state \<noteq> []
   \<and> list_cities ascii_lower min_quality_999 utopia_state =
       Inr \<lparr>l_total = 1,
            l_cities = [\<lparr>l_city = ''Utopia'', l_country = ''Nowhere'',
                         l_qualityOfLife = PyInt 1000, l_costOfLiving = PyInt 50,
                         l_safety = PyInt 90\<rparr>]\<rparr>"
  by (simp add: utopia_state_eq list_cities_def min_quality_999_def get_str_def get_or_def
      lookup_def make_record_def utopia_obj_def slice_to_def sort_reverse_def py_round1_def
      num_lt_float_def num_gt_float_def num_rank_def fl_rank_def)

















section \<open>Properties of \<open>load_cities_data\<close>\<close>

lemma load_countries_single:
  "load_countries (g # cl) s =
     (case load_countries [g] s of
        (Some e, s') \<Rightarrow> (Some e, s')
      | (None, s') \<Rightarrow> load_countries cl s')"
  by (auto simp: Let_def split: option.splits prod.splits)

lemma load_countries_append:
  "fst (load_countries xs s) = None \<Longrightarrow>
     load_countries (xs @ ys) s = load_countries ys (snd (load_countries xs s))"
proof (induction xs arbitrary: s)
  case Nil
  then show ?case by simp
next
  case (Cons g xs)
  obtain r s' where one: "load_countries [g] s = (r, s')"
    by (cases "load_countries [g] s")
  have r: "r = None"
    using Cons.prems one
    by (cases r) (simp_all add: load_countries_single[of g xs] del: load_countries.simps)
  have step: "load_countries (g # zs) s = load_countries zs s'" for zs
    using one r by (simp add: load_countries_single[of g zs] del: load_countries.simps)
  have "fst (load_countries xs s') = None"
    using Cons.prems step[of xs] by (simp del: load_countries.simps)
  then have "load_countries (xs @ ys) s' = load_countries ys (snd (load_countries xs s'))"
    by (rule Cons.IH)
  then show ?case
    using step[of "xs @ ys"] step[of xs] by (simp del: load_countries.simps)
qed

lemma load_countries_failure_point:
  "fst (load_countries cl s) \<noteq> None \<Longrightarrow>
     \<exists>n < length cl.
        fst (load_countries (take n cl) s) = None
        \<and> fst (load_countries [cl ! n] (snd (load_countries (take n cl) s))) \<noteq> None
        \<and> snd (load_countries cl s)
            = snd (load_countries [cl ! n] (snd (load_countries (take n cl) s)))"
proof (induction cl arbitrary: s)
  case Nil
  then show ?case by simp
next
  case (Cons g cl)
  obtain r s' where one: "load_countries [g] s = (r, s')"
    by (cases "load_countries [g] s")
  show ?case
  proof (cases r)
    case (Some e)
    then have "load_countries (g # cl) s = (Some e, s')"
      using one by (simp add: load_countries_single[of g cl] del: load_countries.simps)
    then have "fst (load_countries (take 0 (g # cl)) s) = None
        \<and> fst (load_countries [(g # cl) ! 0] (snd (load_countries (take 0 (g # cl)) s)))
            \<noteq> None
        \<and> snd (load_countries (g # cl) s)
            = snd (load_countries [(g # cl) ! 0] (snd (load_countries (take 0 (g # cl)) s)))"
      using one Some by (simp del: load_countries.simps add: load_countries.simps(1))
    then show ?thesis by blast
  next
    case None
    then have step: "load_countries (g # xs) s = load_countries xs s'" for xs
      using one by (simp add: load_countries_single[of g xs] del: load_countries.simps)
    then have "fst (load_countries cl s') \<noteq> None"
      using Cons.prems by (simp del: load_countries.simps)
    then obtain n where n: "n < length cl"
      "fst (load_countries (take n cl) s') = None"
      "fst (load_countries [cl ! n] (snd (load_countries (take n cl) s'))) \<noteq> None"
      "snd (load_countries cl s')
            = snd (load_countries [cl ! n] (snd (load_countries (take n cl) s')))"
      using Cons.IH by blast
    have "Suc n < length (g # cl)
        \<and> fst (load_countries (take (Suc n) (g # cl)) s) = None
        \<and> fst (load_countries [(g # cl) ! Suc n]
              (snd (load_countries (take (Suc n) (g # cl)) s))) \<noteq> None
        \<and> snd (load_countries (g # cl) s)
            = snd (load_countries [(g # cl) ! Suc n]
                (snd (load_countries (take (Suc n) (g # cl)) s)))"
      using n step by (simp del: load_countries.simps)
    then show ?thesis by blast
  qed
qed

text \<open>
  A failing inner loop leaves the state that the cities before the first one without a
  name build.
\<close>

lemma load_cities_named_prefix:
  "map_of (COUNTRIES s) c \<noteq> None \<Longrightarrow>
     load_cities c (takeWhile (\<lambda>x. name_field x \<noteq> None) cs) s
       = (None, snd (load_cities c cs s))"
proof (induction cs arbitrary: s)
  case Nil
  then show ?case by simp
next
  case (Cons x cs)
  show ?case
  proof (cases "name_field x")
    case None
    then show ?thesis by simp
  next
    case (Some n)
    obtain cities where cities: "map_of (COUNTRIES s) c = Some cities"
      using Cons.prems by auto
    let ?s2 = "s\<lparr>CITIES_DATA :=
                   AList.update (city_key n c) (make_record n c x) (CITIES_DATA s),
                 COUNTRIES := AList.update c (cities @ [n]) (COUNTRIES s)\<rparr>"
    have m: "map_of (COUNTRIES ?s2) c \<noteq> None"
      by (simp add: update_conv')
    have "load_cities c (takeWhile (\<lambda>x. name_field x \<noteq> None) cs) ?s2
            = (None, snd (load_cities c cs ?s2))"
      using m by (rule Cons.IH)
    then show ?thesis
      using Some cities by simp
  qed
qed

lemma load_countries_processed_part:
  assumes "fst (load_countries [g] s) \<noteq> None"
  shows "load_countries (processed_part g) s = (None, snd (load_countries [g] s))"
proof (cases "cd_country g")
  case None
  then show ?thesis by (simp add: processed_part_def)
next
  case c: (Some c)
  let ?s1 = "s\<lparr>COUNTRIES := AList.update c [] (COUNTRIES s)\<rparr>"
  have m: "map_of (COUNTRIES ?s1) c \<noteq> None"
    by (simp add: update_conv')
  show ?thesis
  proof (cases "cd_cities g")
    case None
    then show ?thesis using c by (simp add: processed_part_def)
  next
    case cs: (Some cs)
    obtain r s2 where l: "load_cities c cs ?s1 = (r, s2)"
      by (cases "load_cities c cs ?s1")
    have r: "r \<noteq> None"
      using assms c cs l by (cases r) auto
    then have whole: "snd (load_countries [g] s) = s2"
      using c cs l by (cases r) auto
    have "load_cities c (takeWhile (\<lambda>x. name_field x \<noteq> None) cs) ?s1 = (None, s2)"
      using load_cities_named_prefix[OF m, of cs] l by simp
    then show ?thesis
      using c cs whole by (simp add: processed_part_def)
  qed
qed

text \<open>
  Claim C4, as amended. When the load fails because the file is missing or is not JSON,
  the catalog is left empty. When it fails while the country groups are processed, nothing
  is rolled back: some group \<open>n\<close> is the first to raise, and the catalog is exactly the one
  that a load without error builds from the dataset cut at the failing point, that is from
  the groups before group \<open>n\<close> followed by the processed part of group \<open>n\<close> (nothing when
  its country is missing; otherwise its country with the cities before the first city
  without a name, none when it has no list of cities).
\<close>

theorem load_failure_state:
  "(src = Missing \<or> src = Invalid \<longrightarrow> load_failed src \<and> startup src = empty_state)
   \<and> (\<forall>cl. src = Parsed cl \<and> load_failed src \<longrightarrow>
         (\<exists>n < length cl.
            fst (load_countries (take n cl) empty_state) = None
            \<and> fst (load_countries (take (Suc n) cl) empty_state) \<noteq> None
            \<and> load_countries (take n cl @ processed_part (cl ! n)) empty_state
                = (None, startup src)))"
proof (intro conjI impI allI)
  assume "src = Missing \<or> src = Invalid"
  then show "load_failed src" "startup src = empty_state"
    by (auto simp: load_failed_def startup_def)
next
  fix cl
  assume h: "src = Parsed cl \<and> load_failed src"
  then have "fst (load_countries cl empty_state) \<noteq> None"
    by (auto simp: load_failed_def)
  then obtain n where n: "n < length cl"
      "fst (load_countries (take n cl) empty_state) = None"
      "fst (load_countries [cl ! n] (snd (load_countries (take n cl) empty_state))) \<noteq> None"
      "snd (load_countries cl empty_state)
            = snd (load_countries [cl ! n] (snd (load_countries (take n cl) empty_state)))"
    using load_countries_failure_point by blast
  let ?sn = "snd (load_countries (take n cl) empty_state)"
  have st: "startup src = snd (load_countries [cl ! n] ?sn)"
    using h n(4) by (simp add: startup_def)
  have suc: "take (Suc n) cl = take n cl @ [cl ! n]"
    using n(1) by (simp add: take_Suc_conv_app_nth)
  have a: "fst (load_countries (take (Suc n) cl) empty_state) \<noteq> None"
    unfolding suc load_countries_append[OF n(2)] by (rule n(3))
  have b: "load_countries (take n cl @ processed_part (cl ! n)) empty_state
             = (None, startup src)"
    unfolding st load_countries_append[OF n(2)]
    by (rule load_countries_processed_part[OF n(3)])
  from n(1,2) a b
  show "\<exists>n < length cl.
            fst (load_countries (take n cl) empty_state) = None
            \<and> fst (load_countries (take (Suc n) cl) empty_state) \<noteq> None
            \<and> load_countries (take n cl @ processed_part (cl ! n)) empty_state
                = (None, startup src)"
    by blast
qed

lemma load_partial:
  "load_countries partial_groups empty_state = (Some (KeyError ''country''), germany_state)"
  unfolding partial_groups_def empty_state_def germany_state_def berlin_record_def
  by (simp add: city_key_def berlin_obj_def)

lemma startup_partial: "startup (Parsed partial_groups) = germany_state"
  by (simp add: startup_def load_partial)

lemma load_failed_partial: "load_failed (Parsed partial_groups)"
  by (simp add: load_failed_def load_partial)

text \<open>
  Claim C4 as stated fails: when the second group raises \<open>KeyError\<close>, the load has failed
  and Berlin, stored by the first group, is in the catalog.
\<close>

theorem load_failure_partial_counterexample:
  "load_failed (Parsed partial_groups)
   \<and> CITIES_DATA (startup (Parsed partial_groups)) = [(''Berlin, Germany'', berlin_record)]
   \<and> COUNTRIES (startup (Parsed partial_groups)) = [(''Germany'', [''Berlin''])]
   \<and> startup (Parsed partial_groups) \<noteq> empty_state"
  by (simp add: load_failed_partial startup_partial germany_state_def empty_state_def)

lemma load_repeated: "load_countries repeated_groups empty_state = (None, repeated_state)"
  unfolding repeated_groups_def empty_state_def repeated_state_def
  by (simp add: city_key_def berlin_obj_def munich_obj_def)

lemma load_failing:
  "load_countries failing_groups empty_state = (Some (KeyError ''city''), repeated_state)"
  unfolding failing_groups_def empty_state_def repeated_state_def
  by (simp add: city_key_def berlin_obj_def munich_obj_def nameless_obj_def)

lemma load_failing_first:
  "load_countries (take 1 failing_groups) empty_state = (None, germany_state)"
  unfolding failing_groups_def empty_state_def germany_state_def berlin_record_def
  by (simp add: city_key_def berlin_obj_def)

text \<open>
  The two unreadable sources; and Germany with Berlin followed by Germany with Munich and
  a city without a name. The load fails in the second group after Munich is stored: the
  catalog holds both cities in \<open>CITIES_DATA\<close> and Munich alone under Germany, as if the
  dataset ended after Munich.
\<close>

theorem load_failure_state_witness:
  "load_failed Missing \<and> startup Missing = empty_state
   \<and> load_failed Invalid \<and> startup Invalid = empty_state
   \<and> load_failed (Parsed failing_groups)
   \<and> processed_part (failing_groups ! 1)
       = [\<lparr>cd_country = Some ''Germany'', cd_cities = Some [munich_obj]\<rparr>]
   \<and> load_countries repeated_groups empty_state = (None, startup (Parsed failing_groups))
   \<and> startup (Parsed failing_groups) = repeated_state"
proof -
  have a: "load_failed Missing \<and> startup Missing = empty_state"
    using load_failure_state[of Missing] by simp
  have b: "load_failed Invalid \<and> startup Invalid = empty_state"
    using load_failure_state[of Invalid] by simp
  have f: "load_failed (Parsed failing_groups)"
    by (simp add: load_failed_def load_failing)
  have p: "processed_part (failing_groups ! 1)
       = [\<lparr>cd_country = Some ''Germany'', cd_cities = Some [munich_obj]\<rparr>]"
    by (simp add: failing_groups_def processed_part_def munich_obj_def nameless_obj_def)
  have c: "load_countries repeated_groups empty_state
             = (None, startup (Parsed failing_groups))"
  proof -
    have h: "Parsed failing_groups = Parsed failing_groups
               \<and> load_failed (Parsed failing_groups)"
      using f by simp
    obtain n where n: "n < length failing_groups"
      "fst (load_countries (take n failing_groups) empty_state) = None"
      "fst (load_countries (take (Suc n) failing_groups) empty_state) \<noteq> None"
      "load_countries (take n failing_groups @ processed_part (failing_groups ! n))
         empty_state = (None, startup (Parsed failing_groups))"
      using load_failure_state[of "Parsed failing_groups", THEN conjunct2, rule_format,
          OF h]
      by blast
    have "n < 2"
      using n(1) by (simp add: failing_groups_def)
    moreover have "n \<noteq> 0"
    proof
      assume "n = 0"
      then have "fst (load_countries (take 1 failing_groups) empty_state) \<noteq> None"
        using n(3) by simp
      then show False
        by (simp only: load_failing_first fst_conv simp_thms)
    qed
    ultimately have "n = 1" by simp
    moreover have "take 1 failing_groups @ processed_part (failing_groups ! 1)
                     = repeated_groups"
      unfolding p by (simp add: failing_groups_def repeated_groups_def)
    ultimately show ?thesis
      using n(4) by simp
  qed
  have d: "startup (Parsed failing_groups) = repeated_state"
    by (simp add: startup_def load_failing)
  from a b f p c d show ?thesis by blast
qed

lemma load_cities_countries:
  "load_cities c cs s = (None, s') \<Longrightarrow> map_of (COUNTRIES s) c = Some xs \<Longrightarrow>
     COUNTRIES s' = AList.update c (xs @ List.map_filter name_field cs) (COUNTRIES s)"
proof (induction cs arbitrary: s xs)
  case Nil
  then show ?case by (simp add: update_triv map_filter_simps)
next
  case (Cons x cs)
  from Cons.prems(1) obtain n where n: "name_field x = Some n"
    by (cases "name_field x") auto
  let ?s2 = "s\<lparr>CITIES_DATA := AList.update (city_key n c) (make_record n c x) (CITIES_DATA s),
                COUNTRIES := AList.update c (xs @ [n]) (COUNTRIES s)\<rparr>"
  have rec: "load_cities c cs ?s2 = (None, s')"
    using Cons.prems n by simp
  have m: "map_of (COUNTRIES ?s2) c = Some (xs @ [n])"
    by (simp add: update_conv')
  have "COUNTRIES s' = AList.update c ((xs @ [n]) @ List.map_filter name_field cs) (COUNTRIES ?s2)"
    using rec m by (rule Cons.IH)
  then show ?case
    using n by (simp add: map_filter_simps)
qed

lemma load_countries_map:
  "load_countries cl s = (None, s') \<Longrightarrow>
     map_of (COUNTRIES s') c =
       (case last_group_cities c cl of None \<Rightarrow> map_of (COUNTRIES s) c | Some names \<Rightarrow> Some names)"
proof (induction cl arbitrary: s)
  case Nil
  then show ?case by simp
next
  case (Cons g cl)
  from Cons.prems obtain c0 where c0: "cd_country g = Some c0"
    by (cases "cd_country g") auto
  let ?s1 = "s\<lparr>COUNTRIES := AList.update c0 [] (COUNTRIES s)\<rparr>"
  from Cons.prems c0 obtain cs where cs: "cd_cities g = Some cs"
    by (cases "cd_cities g") auto
  obtain r s2 where l: "load_cities c0 cs ?s1 = (r, s2)"
    by (cases "load_cities c0 cs ?s1")
  have r: "r = None"
    using Cons.prems c0 cs l by (cases r) auto
  have rest: "load_countries cl s2 = (None, s')"
    using Cons.prems c0 cs l r by simp
  have "map_of (COUNTRIES ?s1) c0 = Some []"
    by (simp add: update_conv')
  then have "COUNTRIES s2 = AList.update c0 ([] @ List.map_filter name_field cs) (COUNTRIES ?s1)"
    using l r load_cities_countries by blast
  then have s2: "map_of (COUNTRIES s2) = (map_of (COUNTRIES s))(c0 \<mapsto> group_city_names g)"
    by (simp add: update_conv' group_city_names_def cs)
  have "map_of (COUNTRIES s') c =
       (case last_group_cities c cl of None \<Rightarrow> map_of (COUNTRIES s2) c | Some names \<Rightarrow> Some names)"
    using rest by (rule Cons.IH)
  then show ?case
    using c0 by (auto simp: s2 split: option.splits)
qed

text \<open>
  Claim C8, as amended. After a load that raised no exception, \<open>COUNTRIES\<close> maps every
  country of the dataset to the city names of the last group with that country, in the
  order of the dataset and not deduplicated; a country with no cities is registered with the
  empty sequence, and a country that no group names is absent.
\<close>

theorem countries_hold_last_group:
  assumes "\<not> load_failed (Parsed cl)"
  shows "map_of (COUNTRIES (startup (Parsed cl))) c = last_group_cities c cl"
proof -
  obtain r s' where l: "load_countries cl empty_state = (r, s')"
    by (cases "load_countries cl empty_state")
  have "r = None"
    using assms l by (simp add: load_failed_def)
  then have "map_of (COUNTRIES s') c =
       (case last_group_cities c cl of None \<Rightarrow> map_of (COUNTRIES empty_state) c
        | Some names \<Rightarrow> Some names)"
    using l load_countries_map by blast
  then show ?thesis
    using l by (simp add: startup_def empty_state_def split: option.splits)
qed

lemma load_duplicate:
  "load_countries duplicate_groups empty_state =
     (None, \<lparr>CITIES_DATA = [(''Berlin, Germany'', berlin_record)],
             COUNTRIES = [(''Germany'', [''Berlin'', ''Berlin'']), (''France'', [])]\<rparr>)"
  unfolding duplicate_groups_def empty_state_def berlin_record_def
  by (simp add: city_key_def berlin_obj_def)

text \<open>
  Claim C8 as stated fails for a country that occurs in two groups: line 28 assigns the
  empty list again, so the cities of the first group are no longer in the sequence.
\<close>

theorem countries_repeated_group_counterexample:
  "\<not> load_failed (Parsed repeated_groups)
   \<and> COUNTRIES (startup (Parsed repeated_groups)) = [(''Germany'', [''Munich''])]
   \<and> map_of (COUNTRIES (startup (Parsed repeated_groups))) ''Germany''
        \<noteq> Some [''Berlin'', ''Munich'']"
  by (simp add: load_failed_def startup_def load_repeated repeated_state_def)

text \<open>
  Germany in two groups keeps the second group's city; Berlin listed twice appears twice;
  France, without cities, is registered.
\<close>

theorem countries_hold_last_group_witness:
  "map_of (COUNTRIES (startup (Parsed repeated_groups))) ''Germany'' = Some [''Munich'']
   \<and> map_of (COUNTRIES (startup (Parsed duplicate_groups))) ''Germany''
        = Some [''Berlin'', ''Berlin'']
   \<and> map_of (COUNTRIES (startup (Parsed duplicate_groups))) ''France'' = Some []
   \<and> map_of (COUNTRIES (startup (Parsed duplicate_groups))) ''Spain'' = None"
proof -
  have r: "\<not> load_failed (Parsed repeated_groups)"
    by (simp add: load_failed_def load_repeated)
  have d: "\<not> load_failed (Parsed duplicate_groups)"
    by (simp add: load_failed_def load_duplicate)
  have a: "last_group_cities ''Germany'' repeated_groups = Some [''Munich'']"
    by (simp add: repeated_groups_def group_city_names_def map_filter_simps munich_obj_def)
  have b: "last_group_cities ''Germany'' duplicate_groups = Some [''Berlin'', ''Berlin'']"
    "last_group_cities ''France'' duplicate_groups = Some []"
    "last_group_cities ''Spain'' duplicate_groups = None"
    by (simp_all add: duplicate_groups_def group_city_names_def map_filter_simps berlin_obj_def)
  show ?thesis
    using countries_hold_last_group[OF r, of "''Germany''"]
      countries_hold_last_group[OF d, of "''Germany''"]
      countries_hold_last_group[OF d, of "''France''"]
      countries_hold_last_group[OF d, of "''Spain''"]
    by (simp only: a b simp_thms)
qed

section \<open>Properties of \<open>get_countries\<close>\<close>

lemma length_update_fresh:
  "k \<notin> fst ` set al \<Longrightarrow> length (AList.update k v al) = Suc (length al)"
  by (induction al) auto

lemma sum_update_fresh:
  "k \<notin> fst ` set al \<Longrightarrow>
     sum_list (map (\<lambda>kv. length (snd kv)) (AList.update k v al))
       = sum_list (map (\<lambda>kv. length (snd kv)) al) + length v"
  by (induction al) auto

lemma sum_update_present:
  "map_of al k = Some old \<Longrightarrow>
     sum_list (map (\<lambda>kv. length (snd kv)) (AList.update k v al)) + length old
       = sum_list (map (\<lambda>kv. length (snd kv)) al) + length v"
  by (induction al) (auto split: if_splits)

lemma load_cities_invariant:
  assumes "load_cities c cs s = (r, s')"
    and "map_of (COUNTRIES s) c \<noteq> None"
    and "distinct (map (\<lambda>n. city_key n c) (List.map_filter name_field cs))"
    and "\<forall>n \<in> set (List.map_filter name_field cs). city_key n c \<notin> fst ` set (CITIES_DATA s)"
    and "count_sum s = length (CITIES_DATA s)"
  shows "count_sum s' = length (CITIES_DATA s')
         \<and> fst ` set (CITIES_DATA s')
             \<subseteq> fst ` set (CITIES_DATA s) \<union> (\<lambda>n. city_key n c) ` set (List.map_filter name_field cs)
         \<and> fst ` set (COUNTRIES s') = fst ` set (COUNTRIES s)"
  using assms
proof (induction cs arbitrary: s)
  case Nil
  then show ?case by simp
next
  case (Cons x cs)
  show ?case
  proof (cases "name_field x")
    case None
    then have "s' = s" using Cons.prems(1) by simp
    then show ?thesis using Cons.prems(5) by auto
  next
    case (Some n)
    obtain xs where xs: "map_of (COUNTRIES s) c = Some xs"
      using Cons.prems(2) by blast
    let ?k = "city_key n c"
    let ?s2 = "s\<lparr>CITIES_DATA := AList.update ?k (make_record n c x) (CITIES_DATA s),
                  COUNTRIES := AList.update c (xs @ [n]) (COUNTRIES s)\<rparr>"
    have rec: "load_cities c cs ?s2 = (r, s')"
      using Cons.prems(1) Some xs by simp
    have names: "List.map_filter name_field (x # cs) = n # List.map_filter name_field cs"
      using Some by (simp add: map_filter_simps)
    have fresh: "?k \<notin> fst ` set (CITIES_DATA s)"
      using Cons.prems(4) names by simp
    have len: "length (CITIES_DATA ?s2) = Suc (length (CITIES_DATA s))"
      using fresh by (simp add: length_update_fresh)
    have "count_sum ?s2 + length xs = count_sum s + length (xs @ [n])"
      using sum_update_present[OF xs] by (simp add: count_sum_def)
    then have inv: "count_sum ?s2 = length (CITIES_DATA ?s2)"
      using len Cons.prems(5) by simp
    have p2: "map_of (COUNTRIES ?s2) c \<noteq> None"
      by (simp add: update_conv')
    have p3: "distinct (map (\<lambda>n. city_key n c) (List.map_filter name_field cs))"
      using Cons.prems(3) names by simp
    have keys2: "fst ` set (CITIES_DATA ?s2) = insert ?k (fst ` set (CITIES_DATA s))"
      by (simp add: dom_update)
    have p4: "\<forall>m \<in> set (List.map_filter name_field cs). city_key m c \<notin> fst ` set (CITIES_DATA ?s2)"
    proof
      fix m assume m: "m \<in> set (List.map_filter name_field cs)"
      have d: "?k \<notin> (\<lambda>n. city_key n c) ` set (List.map_filter name_field cs)"
        using Cons.prems(3) unfolding names by simp
      have "city_key m c \<noteq> ?k"
      proof
        assume eq: "city_key m c = ?k"
        have "?k \<in> (\<lambda>n. city_key n c) ` set (List.map_filter name_field cs)"
          by (rule image_eqI[where f = "\<lambda>n. city_key n c" and x = m]) (simp_all add: eq m)
        with d show False by contradiction
      qed
      moreover have "city_key m c \<notin> fst ` set (CITIES_DATA s)"
        using Cons.prems(4) names m by simp
      ultimately show "city_key m c \<notin> fst ` set (CITIES_DATA ?s2)"
        unfolding keys2 by simp
    qed
    have ih: "count_sum s' = length (CITIES_DATA s')
         \<and> fst ` set (CITIES_DATA s')
             \<subseteq> fst ` set (CITIES_DATA ?s2) \<union> (\<lambda>n. city_key n c) ` set (List.map_filter name_field cs)
         \<and> fst ` set (COUNTRIES s') = fst ` set (COUNTRIES ?s2)"
      using rec p2 p3 p4 inv by (rule Cons.IH)
    have ck: "fst ` set (COUNTRIES ?s2) = fst ` set (COUNTRIES s)"
      using xs by (auto simp: dom_update dest: map_of_SomeD intro: rev_image_eqI)
    show ?thesis
      using ih unfolding keys2 ck names by auto
  qed
qed


lemma load_countries_invariant:
  assumes "load_countries cl s = (r, s')"
    and "distinct (group_countries cl)"
    and "set (group_countries cl) \<inter> fst ` set (COUNTRIES s) = {}"
    and "distinct (dataset_keys cl)"
    and "set (dataset_keys cl) \<inter> fst ` set (CITIES_DATA s) = {}"
    and "count_sum s = length (CITIES_DATA s)"
  shows "count_sum s' = length (CITIES_DATA s')"
  using assms
proof (induction cl arbitrary: s)
  case Nil
  then show ?case by simp
next
  case (Cons g cl)
  show ?case
  proof (cases "cd_country g")
    case None
    then have "s' = s" using Cons.prems(1) by simp
    then show ?thesis using Cons.prems(6) by simp
  next
    case c0: (Some c0)
    have gc: "group_countries (g # cl) = c0 # group_countries cl"
      using c0 by (simp add: group_countries_def map_filter_simps)
    have fresh: "c0 \<notin> fst ` set (COUNTRIES s)"
      using Cons.prems(3) unfolding gc by auto
    let ?s1 = "s\<lparr>COUNTRIES := AList.update c0 [] (COUNTRIES s)\<rparr>"
    have inv1: "count_sum ?s1 = length (CITIES_DATA ?s1)"
      using sum_update_fresh[OF fresh, of "[]"] Cons.prems(6) by (simp add: count_sum_def)
    show ?thesis
    proof (cases "cd_cities g")
      case None
      then have "s' = ?s1" using Cons.prems(1) c0 by simp
      then show ?thesis using inv1 by simp
    next
      case cs: (Some cs)
      have gk: "group_keys g = map (\<lambda>n. city_key n c0) (List.map_filter name_field cs)"
        using c0 cs by (simp add: group_keys_def group_city_names_def)
      have dk: "dataset_keys (g # cl) = group_keys g @ dataset_keys cl"
        by (simp add: dataset_keys_def)
      obtain r1 s2 where l: "load_cities c0 cs ?s1 = (r1, s2)"
        by (cases "load_cities c0 cs ?s1")
      have p2: "map_of (COUNTRIES ?s1) c0 \<noteq> None"
        by (simp add: update_conv')
      have p3: "distinct (map (\<lambda>n. city_key n c0) (List.map_filter name_field cs))"
        using Cons.prems(4) unfolding dk gk by simp
      have p4: "\<forall>n \<in> set (List.map_filter name_field cs).
                  city_key n c0 \<notin> fst ` set (CITIES_DATA ?s1)"
        using Cons.prems(5) unfolding dk gk by auto
      have step: "count_sum s2 = length (CITIES_DATA s2)
         \<and> fst ` set (CITIES_DATA s2)
             \<subseteq> fst ` set (CITIES_DATA ?s1)
                 \<union> (\<lambda>n. city_key n c0) ` set (List.map_filter name_field cs)
         \<and> fst ` set (COUNTRIES s2) = fst ` set (COUNTRIES ?s1)"
        using l p2 p3 p4 inv1 by (rule load_cities_invariant)
      show ?thesis
      proof (cases r1)
        case (Some e)
        then have "s' = s2" using Cons.prems(1) c0 cs l by simp
        then show ?thesis using step by simp
      next
        case None
        then have rest: "load_countries cl s2 = (r, s')"
          using Cons.prems(1) c0 cs l by simp
        have q2: "distinct (group_countries cl)"
          using Cons.prems(2) unfolding gc by simp
        have ck: "fst ` set (COUNTRIES s2) = insert c0 (fst ` set (COUNTRIES s))"
          using step by (simp add: dom_update)
        have q3: "set (group_countries cl) \<inter> fst ` set (COUNTRIES s2) = {}"
          using Cons.prems(2,3) unfolding gc ck by auto
        have q4: "distinct (dataset_keys cl)"
          using Cons.prems(4) unfolding dk by simp
        have sub: "fst ` set (CITIES_DATA s2) \<subseteq> fst ` set (CITIES_DATA s) \<union> set (group_keys g)"
          using step unfolding gk by simp
        have dis: "set (group_keys g) \<inter> set (dataset_keys cl) = {}"
          using Cons.prems(4) unfolding dk by simp
        have q5: "set (dataset_keys cl) \<inter> fst ` set (CITIES_DATA s2) = {}"
        proof (rule ccontr)
          assume "set (dataset_keys cl) \<inter> fst ` set (CITIES_DATA s2) \<noteq> {}"
          then obtain k where k: "k \<in> set (dataset_keys cl)" "k \<in> fst ` set (CITIES_DATA s2)"
            by blast
          from k(2) sub have "k \<in> fst ` set (CITIES_DATA s) \<or> k \<in> set (group_keys g)"
            by blast
          moreover have "k \<notin> fst ` set (CITIES_DATA s)"
            using Cons.prems(5) k(1) unfolding dk by auto
          moreover have "k \<notin> set (group_keys g)"
            using dis k(1) by blast
          ultimately show False by blast
        qed
        show ?thesis
          using rest q2 q3 q4 q5 step[THEN conjunct1] by (rule Cons.IH)
      qed
    qed
  qed
qed

lemma sum_list_insort_key:
  "sum_list (map h (insort_key f x xs)) = (h x :: nat) + sum_list (map h xs)"
  by (induction xs) auto

lemma sum_list_sort_key: "sum_list (map h (sort_key f xs)) = (sum_list (map h xs) :: nat)"
  by (induction xs) (simp_all add: sum_list_insort_key)

lemma sum_list_sort_reverse:
  "sum_list (map h (sort_reverse f xs)) = (sum_list (map h xs) :: nat)"
proof -
  have "sum_list (map h (sort_reverse f xs)) = sum_list (rev (map h (sort_key f (rev xs))))"
    by (simp add: sort_reverse_def rev_map)
  also have "\<dots> = sum_list (map h (sort_key f (rev xs)))"
    by (rule sum_list_rev)
  also have "\<dots> = sum_list (map h (rev xs))"
    by (rule sum_list_sort_key)
  also have "\<dots> = sum_list (map h xs)"
    by (simp add: rev_map[symmetric] sum_list_rev del: rev_map)
  finally show ?thesis .
qed

lemma get_countries_sum:
  assumes "get_countries s = Inr res"
  shows "sum_list (map cityCount (countries res)) = count_sum s \<and> totalCities res = length (CITIES_DATA s)"
proof -
  have r: "res = \<lparr>c_total = length (COUNTRIES s),
                totalCities = length (CITIES_DATA s),
                countries =
                  map (\<lambda>(country_name, cities).
                         \<lparr>c_country = country_name, cityCount = length cities\<rparr>)
                    (sort_reverse (\<lambda>x. length (snd x)) (COUNTRIES s))\<rparr>"
    using assms by (simp add: get_countries_def split: if_splits)
  have c: "cityCount \<circ> (\<lambda>(country_name, cities).
                         \<lparr>c_country = country_name, cityCount = length cities\<rparr>)
            = (\<lambda>kv. length (snd kv))"
    by (auto simp: fun_eq_iff)
  have "map cityCount (countries res)
          = map (\<lambda>kv. length (snd kv)) (sort_reverse (\<lambda>x. length (snd x)) (COUNTRIES s))"
    unfolding r by (simp only: countries_result.simps map_map c)
  then have "sum_list (map cityCount (countries res)) = count_sum s"
    by (simp only: sum_list_sort_reverse count_sum_def)
  moreover have "totalCities res = length (CITIES_DATA s)"
    by (simp add: r)
  ultimately show ?thesis by (rule conjI)
qed

text \<open>
  Claim C3, as amended. For a dataset in which no composite key occurs twice and no country
  occurs in two groups, the \<open>cityCount\<close> values that \<open>get_countries\<close> returns sum to the
  \<open>totalCities\<close> of the same reply. This holds whether or not the load raised an exception.
\<close>

theorem country_counts_sum:
  assumes "distinct (group_countries cl)"
    and "distinct (dataset_keys cl)"
    and "get_countries (startup (Parsed cl)) = Inr res"
  shows "sum_list (map cityCount (countries res)) = totalCities res"
proof -
  obtain r s' where l: "load_countries cl empty_state = (r, s')"
    by (cases "load_countries cl empty_state")
  have s': "startup (Parsed cl) = s'"
    using l by (simp add: startup_def)
  have "count_sum s' = length (CITIES_DATA s')"
    using l assms(1) _ assms(2)
    by (rule load_countries_invariant) (simp_all add: empty_state_def count_sum_def)
  then show ?thesis
    using get_countries_sum[OF assms(3)] by (simp add: s')
qed


lemma get_countries_two:
  "get_countries two_cities_state =
     Inr \<lparr>c_total = 1, totalCities = 2,
          countries = [\<lparr>c_country = ''Germany'', cityCount = 2\<rparr>]\<rparr>"
  by (simp add: two_cities_state_eq get_countries_def sort_reverse_def)

text \<open>
  Germany with Berlin and Munich: one country with two cities, and two cities in total.
\<close>

theorem country_counts_sum_witness:
  "get_countries two_cities_state =
     Inr \<lparr>c_total = 1, totalCities = 2,
          countries = [\<lparr>c_country = ''Germany'', cityCount = 2\<rparr>]\<rparr>
   \<and> sum_list (map cityCount [\<lparr>c_country = ''Germany'', cityCount = 2\<rparr>]) = 2"
proof -
  let ?cl = "[\<lparr>cd_country = Some ''Germany'', cd_cities = Some [berlin_obj, munich_obj]\<rparr>]"
  have a: "distinct (group_countries ?cl)"
    by (simp add: group_countries_def map_filter_simps)
  have b: "distinct (dataset_keys ?cl)"
    by (simp add: dataset_keys_def group_keys_def group_city_names_def map_filter_simps
        berlin_obj_def munich_obj_def city_key_def)
  have e: "get_countries (startup (Parsed ?cl)) =
     Inr \<lparr>c_total = 1, totalCities = 2,
          countries = [\<lparr>c_country = ''Germany'', cityCount = 2\<rparr>]\<rparr>"
    using get_countries_two by (simp only: two_cities_state_def)
  from country_counts_sum[OF a b e] get_countries_two show ?thesis
    by simp
qed

text \<open>
  Claim C3 as stated fails on a dataset with Germany in two groups: the second group
  replaces the sequence of the first, so the counts sum to 1 while \<open>totalCities\<close> is 2.
\<close>

theorem country_counts_sum_counterexample:
  "get_countries (startup (Parsed repeated_groups)) =
     Inr \<lparr>c_total = 1, totalCities = 2,
          countries = [\<lparr>c_country = ''Germany'', cityCount = 1\<rparr>]\<rparr>
   \<and> sum_list (map cityCount [\<lparr>c_country = ''Germany'', cityCount = 1\<rparr>]) \<noteq> 2"
  by (simp add: startup_def load_repeated repeated_state_def get_countries_def
      sort_reverse_def)

end
